theory Spec2Isabelle
  imports Main
begin

section \<open>Data model (app/models.py)\<close>

text \<open>
  The four tables of the warehouse service. Every row is a record; a nullable column is an
  \<open>option\<close>. Python integers are unbounded, so an integer attribute of a row object is an
  \<open>int\<close>; what the column of the storage backend can hold is checked when the row is
  written, at the commit.
  A price is a decimal with two places and is kept as the number of hundredths.

  A field keeps the name of its column where that name is free; the columns \<open>id\<close>,
  \<open>name\<close> and \<open>description\<close> occur in several tables and carry the table's initial,
  and \<open>notes\<close> is written \<open>m_notes\<close>.

  The columns \<open>created_at\<close> and \<open>updated_at\<close> of categories, suppliers and products are
  filled in by the database server and read by no operation; they are left out. The
  column \<open>created_at\<close> of a stock movement decides the order of the stock history and is
  kept: it is the reading of the server clock (\<open>func.now()\<close>) when the row is inserted.
\<close>

type_synonym timestamp = int

record Category =
  c_id :: int
  c_name :: string
  c_description :: "string option"

record Supplier =
  s_id :: int
  s_name :: string
  contact_name :: "string option"
  email :: "string option"
  phone :: "string option"
  address :: "string option"

record Product =
  p_id :: int
  p_name :: string
  p_description :: "string option"
  sku :: string
  price :: int
  stock_quantity :: int
  reorder_level :: int
  category_id :: "int option"
  supplier_id :: "int option"

record StockMovement =
  m_id :: int
  product_id :: int
  quantity :: int
  movement_type :: string
  m_notes :: "string option"
  created_at :: timestamp

text \<open>\<open>Product.needs_reorder\<close>, the property of the model class.\<close>

definition needs_reorder :: "Product \<Rightarrow> bool" where
  "needs_reorder self = (stock_quantity self \<le> reorder_level self)"


section \<open>Request bodies (app/schemas.py)\<close>

text \<open>
  The update schemas make every field optional, and \<open>model_dump(exclude_unset=True)\<close>
  tells a field that the request left out (\<open>Unset\<close>) from one that it gave, possibly as
  an explicit null (\<open>Given None\<close>).
\<close>

datatype 'a field = Unset | Given 'a

record CategoryCreate =
  cc_name :: string
  cc_description :: "string option"

record CategoryUpdate =
  cu_name :: "string option field"
  cu_description :: "string option field"

record SupplierCreate =
  sc_name :: string
  sc_contact_name :: "string option"
  sc_email :: "string option"
  sc_phone :: "string option"
  sc_address :: "string option"

record SupplierUpdate =
  su_name :: "string option field"
  su_contact_name :: "string option field"
  su_email :: "string option field"
  su_phone :: "string option field"
  su_address :: "string option field"

record ProductCreate =
  pc_name :: string
  pc_description :: "string option"
  pc_sku :: string
  pc_price :: int
  pc_stock_quantity :: int
  pc_reorder_level :: int
  pc_category_id :: "int option"
  pc_supplier_id :: "int option"

record ProductUpdate =
  pu_name :: "string option field"
  pu_description :: "string option field"
  pu_sku :: "string option field"
  pu_price :: "int option field"
  pu_stock_quantity :: "int option field"
  pu_reorder_level :: "int option field"
  pu_category_id :: "int option field"
  pu_supplier_id :: "int option field"

record StockAdjustment =
  adj_quantity :: int
  adj_notes :: "string option"

text \<open>The attribute of a parsed update body: \<open>None\<close> when unset or null.\<close>

fun attr :: "'a option field \<Rightarrow> 'a option" where
  "attr Unset = None"
| "attr (Given v) = v"

text \<open>
  The \<open>Field\<close> constraints of the schemas. FastAPI checks them while it parses the
  request, before the endpoint function runs.
\<close>

definition len_between :: "nat \<Rightarrow> nat \<Rightarrow> string \<Rightarrow> bool" where
  "len_between lo hi v = (lo \<le> length v \<and> length v \<le> hi)"

fun opt_ok :: "('a \<Rightarrow> bool) \<Rightarrow> 'a option \<Rightarrow> bool" where
  "opt_ok c None = True"
| "opt_ok c (Some v) = c v"

fun field_ok :: "('a \<Rightarrow> bool) \<Rightarrow> 'a option field \<Rightarrow> bool" where
  "field_ok c Unset = True"
| "field_ok c (Given v) = opt_ok c v"

definition valid_CategoryCreate :: "CategoryCreate \<Rightarrow> bool" where
  "valid_CategoryCreate b = len_between 1 100 (cc_name b)"

definition valid_CategoryUpdate :: "CategoryUpdate \<Rightarrow> bool" where
  "valid_CategoryUpdate b = field_ok (len_between 1 100) (cu_name b)"

definition valid_SupplierCreate :: "SupplierCreate \<Rightarrow> bool" where
  "valid_SupplierCreate b =
     (len_between 1 200 (sc_name b) \<and>
      opt_ok (len_between 0 200) (sc_contact_name b) \<and>
      opt_ok (len_between 0 200) (sc_email b) \<and>
      opt_ok (len_between 0 50) (sc_phone b))"

definition valid_SupplierUpdate :: "SupplierUpdate \<Rightarrow> bool" where
  "valid_SupplierUpdate b = field_ok (len_between 1 200) (su_name b)"

definition valid_ProductCreate :: "ProductCreate \<Rightarrow> bool" where
  "valid_ProductCreate b =
     (len_between 1 200 (pc_name b) \<and>
      len_between 1 100 (pc_sku b) \<and>
      0 < pc_price b \<and>
      0 \<le> pc_stock_quantity b \<and>
      0 \<le> pc_reorder_level b)"

definition valid_ProductUpdate :: "ProductUpdate \<Rightarrow> bool" where
  "valid_ProductUpdate b =
     (field_ok (len_between 1 200) (pu_name b) \<and>
      field_ok (len_between 1 100) (pu_sku b) \<and>
      field_ok (\<lambda>v. 0 < v) (pu_price b) \<and>
      field_ok (\<lambda>v. 0 \<le> v) (pu_stock_quantity b) \<and>
      field_ok (\<lambda>v. 0 \<le> v) (pu_reorder_level b))"


section \<open>Errors and message text\<close>

text \<open>
  \<open>HTTPException\<close> is what the code raises itself. \<open>RequestValidationError\<close> is FastAPI's
  answer (status 422) to a request that breaks a declared constraint. The other three
  come out of \<open>db.commit()\<close>: \<open>DataError\<close> when PostgreSQL is given a value that its
  column type cannot hold, \<open>OverflowError\<close> when the SQLite driver is given an integer
  beyond 64 bits, and \<open>IntegrityError\<close> when a row breaks a NOT NULL column or a
  foreign key. The code catches none of them. (A string with a NUL character is refused
  by the PostgreSQL driver with an error of its own, which is not told apart from
  \<open>DataError\<close> here.)
\<close>

datatype error =
    HTTPException (status_code: int) (detail: string)
  | RequestValidationError
  | DataError
  | OverflowError
  | IntegrityError

text \<open>Decimal rendering of an integer, as an f-string does it.\<close>

fun str_nat :: "nat \<Rightarrow> string" where
  "str_nat n =
     (if n < 10 then [char_of (48 + n)]
      else str_nat (n div 10) @ [char_of (48 + n mod 10)])"

declare str_nat.simps [simp del]

definition str_int :: "int \<Rightarrow> string" where
  "str_int i = (if i < 0 then CHR ''-'' # str_nat (nat (- i)) else str_nat (nat i))"

definition quoted :: "string \<Rightarrow> string" where
  "quoted v = CHR 0x27 # v @ [CHR 0x27]"


section \<open>The database and the session\<close>

text \<open>
  A table is the list of its rows in insertion order.
\<close>

record database =
  categories :: "Category list"
  suppliers :: "Supplier list"
  products :: "Product list"
  stock_movements :: "StockMovement list"

definition empty_database :: database where
  "empty_database = \<lparr>categories = [], suppliers = [], products = [], stock_movements = []\<rparr>"

subsection \<open>What the backend accepts\<close>

text \<open>
  The backend is chosen by \<open>DATABASE_URL\<close>: config.py names PostgreSQL, the test suite
  runs on SQLite in memory. The two differ in what they accept when a row is written.
  \<^item> \<open>Column(Integer)\<close>: PostgreSQL holds 32 bits, SQLite 64 bits.
  \<^item> \<open>Column(Numeric(10, 2))\<close>: PostgreSQL holds ten digits, so fewer than \<open>10^10\<close>
    hundredths; SQLite sets no bound.
  \<^item> \<open>Column(String(n))\<close> and \<open>Column(Text)\<close>: PostgreSQL refuses a string longer than
    \<open>n\<close> and a string that contains the character NUL; SQLite takes any string.
  \<^item> \<open>ForeignKey\<close>: PostgreSQL checks that the row referred to exists; SQLite, as the
    code opens it, does not.
\<close>

datatype backend = PostgreSQL | SQLite

fun integer_ok :: "backend \<Rightarrow> int \<Rightarrow> bool" where
  "integer_ok PostgreSQL v = (- 2147483648 \<le> v \<and> v \<le> 2147483647)"
| "integer_ok SQLite v = (- 9223372036854775808 \<le> v \<and> v \<le> 9223372036854775807)"

fun numeric_ok :: "backend \<Rightarrow> int \<Rightarrow> bool" where
  "numeric_ok PostgreSQL v = (\<bar>v\<bar> < 10000000000)"
| "numeric_ok SQLite v = True"

fun text_ok :: "backend \<Rightarrow> string \<Rightarrow> bool" where
  "text_ok PostgreSQL v = (CHR 0x00 \<notin> set v)"
| "text_ok SQLite v = True"

fun varchar_ok :: "backend \<Rightarrow> nat \<Rightarrow> string \<Rightarrow> bool" where
  "varchar_ok PostgreSQL n v = (length v \<le> n \<and> CHR 0x00 \<notin> set v)"
| "varchar_ok SQLite n v = True"

fun foreign_keys :: "backend \<Rightarrow> bool" where
  "foreign_keys PostgreSQL = True"
| "foreign_keys SQLite = False"

text \<open>
  A statement is the INSERT of a new row (no old row) or the UPDATE of a loaded row. An UPDATE
  sends the columns whose value has changed and no others, so only these are checked.
  A DELETE carries no value and is not listed.
\<close>

datatype statement =
    WriteCategory "Category option" Category
  | WriteSupplier "Supplier option" Supplier
  | WriteProduct "Product option" Product
  | WriteMovement StockMovement

definition col_ok :: "'r option \<Rightarrow> 'r \<Rightarrow> ('r \<Rightarrow> 'c) \<Rightarrow> ('c \<Rightarrow> bool) \<Rightarrow> bool" where
  "col_ok old new col chk =
     (case old of
        None \<Rightarrow> chk (col new)
      | Some prev \<Rightarrow> col prev = col new \<or> chk (col new))"

fun refers :: "int list \<Rightarrow> int option \<Rightarrow> bool" where
  "refers keys None = True"
| "refers keys (Some k) = (k \<in> set keys)"

text \<open>
  The column types of models.py. A primary key is assigned by the database, and a
  reference that gets this far is such a key or the number 0; both fit an integer column.
\<close>

fun data_fits :: "backend \<Rightarrow> statement \<Rightarrow> bool" where
  "data_fits be (WriteCategory old new) =
     (col_ok old new c_name (varchar_ok be 100) \<and>
      col_ok old new c_description (opt_ok (text_ok be)))"
| "data_fits be (WriteSupplier old new) =
     (col_ok old new s_name (varchar_ok be 200) \<and>
      col_ok old new contact_name (opt_ok (varchar_ok be 200)) \<and>
      col_ok old new email (opt_ok (varchar_ok be 200)) \<and>
      col_ok old new phone (opt_ok (varchar_ok be 50)) \<and>
      col_ok old new address (opt_ok (text_ok be)))"
| "data_fits be (WriteProduct old new) =
     (col_ok old new p_name (varchar_ok be 200) \<and>
      col_ok old new p_description (opt_ok (text_ok be)) \<and>
      col_ok old new sku (varchar_ok be 100) \<and>
      col_ok old new price (numeric_ok be) \<and>
      col_ok old new stock_quantity (integer_ok be) \<and>
      col_ok old new reorder_level (integer_ok be))"
| "data_fits be (WriteMovement new) =
     (integer_ok be (quantity new) \<and>
      varchar_ok be 50 (movement_type new) \<and>
      opt_ok (text_ok be) (m_notes new))"

text \<open>The foreign keys of models.py, looked up in the data as the transaction sees it.\<close>

fun refs_exist :: "backend \<Rightarrow> database \<Rightarrow> statement \<Rightarrow> bool" where
  "refs_exist be d (WriteProduct old new) =
     (if foreign_keys be then
        col_ok old new category_id (refers (map c_id (categories d))) \<and>
        col_ok old new supplier_id (refers (map s_id (suppliers d)))
      else True)"
| "refs_exist be d (WriteMovement new) =
     (if foreign_keys be then product_id new \<in> set (map p_id (products d)) else True)"
| "refs_exist be d (WriteCategory old new) = True"
| "refs_exist be d (WriteSupplier old new) = True"

definition write_error :: "backend \<Rightarrow> database \<Rightarrow> statement \<Rightarrow> error option" where
  "write_error be d w =
     (if data_fits be w then
        if refs_exist be d w then None else Some IntegrityError
      else Some (case be of PostgreSQL \<Rightarrow> DataError | SQLite \<Rightarrow> OverflowError))"

fun flush_error :: "backend \<Rightarrow> database \<Rightarrow> statement list \<Rightarrow> error option" where
  "flush_error be d [] = None"
| "flush_error be d (w # ws) =
     (case write_error be d w of Some e \<Rightarrow> Some e | None \<Rightarrow> flush_error be d ws)"

text \<open>
  The UNIQUE columns (\<open>sku\<close> and the two \<open>name\<close>s) are not checked here: every
  operation looks the value up itself before it writes, and the operations of this
  development run one after the other.
\<close>

subsection \<open>The session\<close>

text \<open>
  A session is bound to its \<open>engine\<close> and works on \<open>pending\<close>, its view of the data inside
  the open transaction. \<open>dirty\<close> lists the writes that have not been flushed yet, in the
  order in which they were made. \<open>commit\<close> flushes them: when the backend accepts them
  all, the view becomes the stored data; when it refuses one, \<open>commit\<close> raises and nothing
  is stored. \<open>commits\<close> lists every state the stored data has gone through, oldest first:
  it is what a reader outside the session can have seen, and what survives a failure
  between two commits.

  The module app/database.py, which builds the engine and hands a session to every
  request, is not among the sources. Each operation of crud.py takes the session as its
  first argument, and so does its model here.
\<close>

record session =
  engine :: backend
  stored :: database
  pending :: database
  dirty :: "statement list"
  commits :: "database list"

definition open_session :: "backend \<Rightarrow> database \<Rightarrow> session" where
  "open_session be d = \<lparr>engine = be, stored = d, pending = d, dirty = [], commits = []\<rparr>"

definition commit :: "session \<Rightarrow> error + session" where
  "commit db =
     (case flush_error (engine db) (pending db) (dirty db) of
        Some e \<Rightarrow> Inl e
      | None \<Rightarrow>
          Inr (db\<lparr>stored := pending db, dirty := [], commits := commits db @ [pending db]\<rparr>))"

definition rollback :: "session \<Rightarrow> session" where
  "rollback db = db\<lparr>pending := stored db, dirty := []\<rparr>"

text \<open>
  \<open>db.commit()\<close> as the last write of an operation, followed by \<open>db.refresh\<close> and the
  \<open>return\<close> of the row. When the commit raises, the exception leaves the operation and the
  transaction is rolled back.
\<close>

definition commit_and_return :: "session \<Rightarrow> 'a \<Rightarrow> session \<times> (error + 'a)" where
  "commit_and_return db row =
     (case commit db of Inl e \<Rightarrow> (rollback db, Inl e) | Inr db' \<Rightarrow> (db', Inr row))"

text \<open>
  An integer primary key is assigned by the database on insert. The model takes one more
  than the largest key of the table, and 1 in an empty table; a PostgreSQL sequence may
  skip values, and no statement below depends on the value of a key.
\<close>

definition next_id :: "int list \<Rightarrow> int" where
  "next_id ids = fold max ids 0 + 1"

text \<open>
  Assigning attributes of a loaded row and flushing them. A column that is
  \<open>nullable=False\<close> cannot take a null: the flush fails, which \<open>None\<close> stands for.
\<close>

fun set_required :: "'a option field \<Rightarrow> 'a \<Rightarrow> 'a option" where
  "set_required Unset old = Some old"
| "set_required (Given None) old = None"
| "set_required (Given (Some v)) old = Some v"

fun set_nullable :: "'a option field \<Rightarrow> 'a option \<Rightarrow> 'a option" where
  "set_nullable Unset old = old"
| "set_nullable (Given v) old = v"


section \<open>Category operations (app/crud.py)\<close>

definition get_category :: "session \<Rightarrow> int \<Rightarrow> Category option" where
  "get_category db cid = find (\<lambda>c. c_id c = cid) (categories (pending db))"

definition get_category_by_name :: "session \<Rightarrow> string \<Rightarrow> Category option" where
  "get_category_by_name db n = find (\<lambda>c. c_name c = n) (categories (pending db))"

definition add_category :: "Category \<Rightarrow> session \<Rightarrow> session" where
  "add_category row db =
     db\<lparr>pending := (pending db)\<lparr>categories := categories (pending db) @ [row]\<rparr>,
        dirty := dirty db @ [WriteCategory None row]\<rparr>"

definition flush_category :: "Category \<Rightarrow> Category \<Rightarrow> session \<Rightarrow> session" where
  "flush_category old row db =
     db\<lparr>pending := (pending db)\<lparr>categories :=
        map (\<lambda>c. if c_id c = c_id row then row else c) (categories (pending db))\<rparr>,
        dirty := dirty db @ [WriteCategory (Some old) row]\<rparr>"

text \<open>
  \<open>db.delete\<close> of a category. The relationship \<open>Category.products\<close> is declared with
  \<open>cascade="all, delete-orphan"\<close>, so the session deletes the products of the category
  with it, and \<open>Product.stock_movements\<close>, declared the same way, takes their movements
  along. The rows are gone before the foreign key's \<open>ondelete="SET NULL"\<close> could act.
\<close>

definition session_delete_category :: "Category \<Rightarrow> session \<Rightarrow> session" where
  "session_delete_category row db =
     (let doomed = filter (\<lambda>p. category_id p = Some (c_id row)) (products (pending db))
      in db\<lparr>pending := (pending db)
           \<lparr>categories := filter (\<lambda>c. c_id c \<noteq> c_id row) (categories (pending db)),
            products := filter (\<lambda>p. category_id p \<noteq> Some (c_id row)) (products (pending db)),
            stock_movements :=
              filter (\<lambda>m. product_id m \<notin> set (map p_id doomed))
                (stock_movements (pending db))\<rparr>\<rparr>)"

definition create_category :: "session \<Rightarrow> CategoryCreate \<Rightarrow> session \<times> (error + Category)" where
  "create_category db category =
     (case get_category_by_name db (cc_name category) of
        Some existing \<Rightarrow>
          (db, Inl (HTTPException 400
             (''Category with name '' @ quoted (cc_name category) @ '' already exists'')))
      | None \<Rightarrow>
          let db_category =
                \<lparr>c_id = next_id (map c_id (categories (pending db))),
                 c_name = cc_name category, c_description = cc_description category\<rparr>
          in commit_and_return (add_category db_category db) db_category)"

text \<open>The name check of \<open>update_category\<close>: \<open>if category.name:\<close> and what follows.\<close>

fun category_name_conflict :: "session \<Rightarrow> int \<Rightarrow> string option \<Rightarrow> error option" where
  "category_name_conflict db cid None = None"
| "category_name_conflict db cid (Some n) =
     (if n = [] then None
      else case get_category_by_name db n of
             None \<Rightarrow> None
           | Some existing \<Rightarrow>
               if c_id existing \<noteq> cid then
                 Some (HTTPException 400
                   (''Category with name '' @ quoted n @ '' already exists''))
               else None)"

definition update_category ::
  "session \<Rightarrow> int \<Rightarrow> CategoryUpdate \<Rightarrow> session \<times> (error + Category)" where
  "update_category db cid category =
     (case get_category db cid of
        None \<Rightarrow>
          (db, Inl (HTTPException 404 (''Category with id '' @ str_int cid @ '' not found'')))
      | Some db_category \<Rightarrow>
          (case category_name_conflict db cid (attr (cu_name category)) of
             Some e \<Rightarrow> (db, Inl e)
           | None \<Rightarrow>
               (case set_required (cu_name category) (c_name db_category) of
                  None \<Rightarrow> (rollback db, Inl IntegrityError)
                | Some n \<Rightarrow>
                    let updated = db_category
                          \<lparr>c_name := n,
                           c_description :=
                             set_nullable (cu_description category) (c_description db_category)\<rparr>
                    in commit_and_return (flush_category db_category updated db) updated)))"

definition delete_category :: "session \<Rightarrow> int \<Rightarrow> session \<times> (error + unit)" where
  "delete_category db cid =
     (case get_category db cid of
        None \<Rightarrow>
          (db, Inl (HTTPException 404 (''Category with id '' @ str_int cid @ '' not found'')))
      | Some db_category \<Rightarrow>
          commit_and_return (session_delete_category db_category db) ())"


section \<open>Supplier operations (app/crud.py)\<close>

definition get_supplier :: "session \<Rightarrow> int \<Rightarrow> Supplier option" where
  "get_supplier db sid = find (\<lambda>r. s_id r = sid) (suppliers (pending db))"

definition get_supplier_by_name :: "session \<Rightarrow> string \<Rightarrow> Supplier option" where
  "get_supplier_by_name db n = find (\<lambda>r. s_name r = n) (suppliers (pending db))"

definition add_supplier :: "Supplier \<Rightarrow> session \<Rightarrow> session" where
  "add_supplier row db =
     db\<lparr>pending := (pending db)\<lparr>suppliers := suppliers (pending db) @ [row]\<rparr>,
        dirty := dirty db @ [WriteSupplier None row]\<rparr>"

definition flush_supplier :: "Supplier \<Rightarrow> Supplier \<Rightarrow> session \<Rightarrow> session" where
  "flush_supplier old row db =
     db\<lparr>pending := (pending db)\<lparr>suppliers :=
        map (\<lambda>r. if s_id r = s_id row then row else r) (suppliers (pending db))\<rparr>,
        dirty := dirty db @ [WriteSupplier (Some old) row]\<rparr>"

text \<open>\<open>Supplier.products\<close> carries the same cascade as \<open>Category.products\<close>.\<close>

definition session_delete_supplier :: "Supplier \<Rightarrow> session \<Rightarrow> session" where
  "session_delete_supplier row db =
     (let doomed = filter (\<lambda>p. supplier_id p = Some (s_id row)) (products (pending db))
      in db\<lparr>pending := (pending db)
           \<lparr>suppliers := filter (\<lambda>r. s_id r \<noteq> s_id row) (suppliers (pending db)),
            products := filter (\<lambda>p. supplier_id p \<noteq> Some (s_id row)) (products (pending db)),
            stock_movements :=
              filter (\<lambda>m. product_id m \<notin> set (map p_id doomed))
                (stock_movements (pending db))\<rparr>\<rparr>)"

definition create_supplier :: "session \<Rightarrow> SupplierCreate \<Rightarrow> session \<times> (error + Supplier)" where
  "create_supplier db supplier =
     (case get_supplier_by_name db (sc_name supplier) of
        Some existing \<Rightarrow>
          (db, Inl (HTTPException 400
             (''Supplier with name '' @ quoted (sc_name supplier) @ '' already exists'')))
      | None \<Rightarrow>
          let db_supplier =
                \<lparr>s_id = next_id (map s_id (suppliers (pending db))),
                 s_name = sc_name supplier, contact_name = sc_contact_name supplier,
                 email = sc_email supplier, phone = sc_phone supplier,
                 address = sc_address supplier\<rparr>
          in commit_and_return (add_supplier db_supplier db) db_supplier)"

fun supplier_name_conflict :: "session \<Rightarrow> int \<Rightarrow> string option \<Rightarrow> error option" where
  "supplier_name_conflict db sid None = None"
| "supplier_name_conflict db sid (Some n) =
     (if n = [] then None
      else case get_supplier_by_name db n of
             None \<Rightarrow> None
           | Some existing \<Rightarrow>
               if s_id existing \<noteq> sid then
                 Some (HTTPException 400
                   (''Supplier with name '' @ quoted n @ '' already exists''))
               else None)"

definition update_supplier ::
  "session \<Rightarrow> int \<Rightarrow> SupplierUpdate \<Rightarrow> session \<times> (error + Supplier)" where
  "update_supplier db sid supplier =
     (case get_supplier db sid of
        None \<Rightarrow>
          (db, Inl (HTTPException 404 (''Supplier with id '' @ str_int sid @ '' not found'')))
      | Some db_supplier \<Rightarrow>
          (case supplier_name_conflict db sid (attr (su_name supplier)) of
             Some e \<Rightarrow> (db, Inl e)
           | None \<Rightarrow>
               (case set_required (su_name supplier) (s_name db_supplier) of
                  None \<Rightarrow> (rollback db, Inl IntegrityError)
                | Some n \<Rightarrow>
                    let updated = db_supplier
                          \<lparr>s_name := n,
                           contact_name :=
                             set_nullable (su_contact_name supplier) (contact_name db_supplier),
                           email := set_nullable (su_email supplier) (email db_supplier),
                           phone := set_nullable (su_phone supplier) (phone db_supplier),
                           address := set_nullable (su_address supplier) (address db_supplier)\<rparr>
                    in commit_and_return (flush_supplier db_supplier updated db) updated)))"

definition delete_supplier :: "session \<Rightarrow> int \<Rightarrow> session \<times> (error + unit)" where
  "delete_supplier db sid =
     (case get_supplier db sid of
        None \<Rightarrow>
          (db, Inl (HTTPException 404 (''Supplier with id '' @ str_int sid @ '' not found'')))
      | Some db_supplier \<Rightarrow>
          commit_and_return (session_delete_supplier db_supplier db) ())"


section \<open>Product operations (app/crud.py)\<close>

definition get_product :: "session \<Rightarrow> int \<Rightarrow> Product option" where
  "get_product db pid = find (\<lambda>p. p_id p = pid) (products (pending db))"

definition get_product_by_sku :: "session \<Rightarrow> string \<Rightarrow> Product option" where
  "get_product_by_sku db k = find (\<lambda>p. sku p = k) (products (pending db))"

definition get_low_stock_products :: "session \<Rightarrow> Product list" where
  "get_low_stock_products db =
     filter (\<lambda>p. stock_quantity p \<le> reorder_level p) (products (pending db))"

text \<open>
  Changing attributes of a loaded product row (\<open>old\<close> is the row as loaded), and adding
  a stock movement.
\<close>

definition flush_product :: "Product \<Rightarrow> Product \<Rightarrow> session \<Rightarrow> session" where
  "flush_product old row db =
     db\<lparr>pending := (pending db)\<lparr>products :=
        map (\<lambda>p. if p_id p = p_id row then row else p) (products (pending db))\<rparr>,
        dirty := dirty db @ [WriteProduct (Some old) row]\<rparr>"

definition add_stock_movement ::
  "timestamp \<Rightarrow> int \<Rightarrow> int \<Rightarrow> string \<Rightarrow> string option \<Rightarrow> session \<Rightarrow> session" where
  "add_stock_movement now pid q kind note db =
     (let row = \<lparr>m_id = next_id (map m_id (stock_movements (pending db))),
                 product_id = pid, quantity = q, movement_type = kind, m_notes = note,
                 created_at = now\<rparr>
      in db\<lparr>pending := (pending db)\<lparr>stock_movements :=
               stock_movements (pending db) @ [row]\<rparr>,
            dirty := dirty db @ [WriteMovement row]\<rparr>)"

text \<open>
  \<open>adjust_product_stock\<close>. The argument \<open>now\<close> is the server clock at the insert of the
  movement. The new quantity and the movement are flushed by the one \<open>db.commit()\<close>.
\<close>

definition adjust_product_stock ::
  "session \<Rightarrow> timestamp \<Rightarrow> int \<Rightarrow> StockAdjustment \<Rightarrow> session \<times> (error + Product)" where
  "adjust_product_stock db now pid adjustment =
     (case get_product db pid of
        None \<Rightarrow>
          (db, Inl (HTTPException 404 (''Product with id '' @ str_int pid @ '' not found'')))
      | Some db_product \<Rightarrow>
          let new_quantity = stock_quantity db_product + adj_quantity adjustment in
          if new_quantity < 0 then
            (db, Inl (HTTPException 400
               (''Insufficient stock. Current: '' @ str_int (stock_quantity db_product) @
                '', Requested: '' @ str_int \<bar>adj_quantity adjustment\<bar>)))
          else
            let updated = db_product\<lparr>stock_quantity := new_quantity\<rparr>;
                kind = (if adj_quantity adjustment > 0 then ''stock_in'' else ''stock_out'');
                db1 = flush_product db_product updated db;
                db2 = add_stock_movement now pid (adj_quantity adjustment) kind
                        (adj_notes adjustment) db1
            in commit_and_return db2 updated)"

text \<open>
  \<open>get_product_stock_history\<close>: the movements of one product, newest first, then
  \<open>offset\<close> and \<open>limit\<close>. SQL leaves the order of rows with equal \<open>created_at\<close> open; the
  sort used here is stable, so such rows stay in insertion order. The endpoint calls
  this function with \<open>skip \<ge> 0\<close> and \<open>limit \<ge> 1\<close> only; a negative value, which the
  database backends do not treat alike, counts as zero here.
\<close>

definition get_product_stock_history ::
  "session \<Rightarrow> int \<Rightarrow> int \<Rightarrow> int \<Rightarrow> StockMovement list" where
  "get_product_stock_history db pid skip limit =
     take (nat limit) (drop (nat skip)
       (sort_key (\<lambda>m. - created_at m)
          (filter (\<lambda>m. product_id m = pid) (stock_movements (pending db)))))"

text \<open>The foreign key checks shared by \<open>create_product\<close> and \<open>update_product\<close>.\<close>

fun missing_category :: "session \<Rightarrow> int option \<Rightarrow> error option" where
  "missing_category db None = None"
| "missing_category db (Some c) =
     (if c \<noteq> 0 \<and> get_category db c = None then
        Some (HTTPException 404 (''Category with id '' @ str_int c @ '' not found''))
      else None)"

fun missing_supplier :: "session \<Rightarrow> int option \<Rightarrow> error option" where
  "missing_supplier db None = None"
| "missing_supplier db (Some c) =
     (if c \<noteq> 0 \<and> get_supplier db c = None then
        Some (HTTPException 404 (''Supplier with id '' @ str_int c @ '' not found''))
      else None)"

definition add_product :: "Product \<Rightarrow> session \<Rightarrow> session" where
  "add_product row db =
     db\<lparr>pending := (pending db)\<lparr>products := products (pending db) @ [row]\<rparr>,
        dirty := dirty db @ [WriteProduct None row]\<rparr>"

text \<open>
  \<open>models.Product(**product.model_dump())\<close>, with the key it gets when it is inserted.
\<close>

definition new_product :: "session \<Rightarrow> ProductCreate \<Rightarrow> Product" where
  "new_product db product =
     \<lparr>p_id = next_id (map p_id (products (pending db))),
      p_name = pc_name product,
      p_description = pc_description product,
      sku = pc_sku product,
      price = pc_price product,
      stock_quantity = pc_stock_quantity product,
      reorder_level = pc_reorder_level product,
      category_id = pc_category_id product,
      supplier_id = pc_supplier_id product\<rparr>"

text \<open>
  \<open>create_product\<close>. The product is added and committed; only then, and only for a
  positive initial quantity, the movement is added and committed in its turn.
\<close>

definition create_product ::
  "session \<Rightarrow> timestamp \<Rightarrow> ProductCreate \<Rightarrow> session \<times> (error + Product)" where
  "create_product db now product =
     (case get_product_by_sku db (pc_sku product) of
        Some existing \<Rightarrow>
          (db, Inl (HTTPException 400
             (''Product with SKU '' @ quoted (pc_sku product) @ '' already exists'')))
      | None \<Rightarrow>
          (case missing_category db (pc_category_id product) of
             Some e \<Rightarrow> (db, Inl e)
           | None \<Rightarrow>
               (case missing_supplier db (pc_supplier_id product) of
                  Some e \<Rightarrow> (db, Inl e)
                | None \<Rightarrow>
                    let db_product = new_product db product in
                    (case commit (add_product db_product db) of
                       Inl e \<Rightarrow> (rollback (add_product db_product db), Inl e)
                     | Inr db1 \<Rightarrow>
                         if pc_stock_quantity product > 0 then
                           commit_and_return
                             (add_stock_movement now (p_id db_product)
                                (pc_stock_quantity product) ''initial_stock''
                                (Some ''Initial stock entry'') db1)
                             db_product
                         else (db1, Inr db_product)))))"

text \<open>The SKU check of \<open>update_product\<close>: \<open>if product.sku:\<close> and what follows.\<close>

fun sku_conflict :: "session \<Rightarrow> int \<Rightarrow> string option \<Rightarrow> error option" where
  "sku_conflict db pid None = None"
| "sku_conflict db pid (Some k) =
     (if k = [] then None
      else case get_product_by_sku db k of
             None \<Rightarrow> None
           | Some existing \<Rightarrow>
               if p_id existing \<noteq> pid then
                 Some (HTTPException 400
                   (''Product with SKU '' @ quoted k @ '' already exists''))
               else None)"

text \<open>
  The loop \<open>for field, value in update_data.items(): setattr(db_product, field, value)\<close>,
  with the flush of the row: \<open>None\<close> when a required column was given a null.
\<close>

definition assign_product :: "ProductUpdate \<Rightarrow> Product \<Rightarrow> Product option" where
  "assign_product u p =
     Option.bind (set_required (pu_name u) (p_name p)) (\<lambda>n.
     Option.bind (set_required (pu_sku u) (sku p)) (\<lambda>k.
     Option.bind (set_required (pu_price u) (price p)) (\<lambda>c.
     Option.bind (set_required (pu_stock_quantity u) (stock_quantity p)) (\<lambda>q.
     Option.bind (set_required (pu_reorder_level u) (reorder_level p)) (\<lambda>r.
       Some \<lparr>p_id = p_id p, p_name = n,
             p_description = set_nullable (pu_description u) (p_description p),
             sku = k, price = c, stock_quantity = q, reorder_level = r,
             category_id = set_nullable (pu_category_id u) (category_id p),
             supplier_id = set_nullable (pu_supplier_id u) (supplier_id p)\<rparr>)))))"

definition update_product ::
  "session \<Rightarrow> int \<Rightarrow> ProductUpdate \<Rightarrow> session \<times> (error + Product)" where
  "update_product db pid product =
     (case get_product db pid of
        None \<Rightarrow>
          (db, Inl (HTTPException 404 (''Product with id '' @ str_int pid @ '' not found'')))
      | Some db_product \<Rightarrow>
          (case sku_conflict db pid (attr (pu_sku product)) of
             Some e \<Rightarrow> (db, Inl e)
           | None \<Rightarrow>
               (case missing_category db (attr (pu_category_id product)) of
                  Some e \<Rightarrow> (db, Inl e)
                | None \<Rightarrow>
                    (case missing_supplier db (attr (pu_supplier_id product)) of
                       Some e \<Rightarrow> (db, Inl e)
                     | None \<Rightarrow>
                         (case assign_product product db_product of
                            None \<Rightarrow> (rollback db, Inl IntegrityError)
                          | Some updated \<Rightarrow>
                              commit_and_return (flush_product db_product updated db)
                                updated)))))"

text \<open>\<open>db.delete\<close> of a product takes its stock movements along (cascade).\<close>

definition session_delete_product :: "Product \<Rightarrow> session \<Rightarrow> session" where
  "session_delete_product row db =
     db\<lparr>pending := (pending db)
        \<lparr>products := filter (\<lambda>p. p_id p \<noteq> p_id row) (products (pending db)),
         stock_movements :=
           filter (\<lambda>m. product_id m \<noteq> p_id row) (stock_movements (pending db))\<rparr>\<rparr>"

definition delete_product :: "session \<Rightarrow> int \<Rightarrow> session \<times> (error + unit)" where
  "delete_product db pid =
     (case get_product db pid of
        None \<Rightarrow>
          (db, Inl (HTTPException 404 (''Product with id '' @ str_int pid @ '' not found'')))
      | Some db_product \<Rightarrow>
          commit_and_return (session_delete_product db_product db) ())"


section \<open>Endpoints (app/api/v1/endpoints)\<close>

text \<open>
  \<open>get_stock_history\<close> of products.py. The query parameters are declared
  \<open>skip: int = Query(0, ge=0)\<close> and \<open>limit: int = Query(100, ge=1, le=1000)\<close>: a missing
  parameter takes its default, and a value outside the declared range is refused by
  FastAPI before the function body runs.
\<close>

definition get_stock_history ::
  "session \<Rightarrow> int \<Rightarrow> int option \<Rightarrow> int option \<Rightarrow> error + StockMovement list" where
  "get_stock_history db pid skip limit =
     (let skip' = (case skip of None \<Rightarrow> 0 | Some v \<Rightarrow> v);
          limit' = (case limit of None \<Rightarrow> 100 | Some v \<Rightarrow> v)
      in if skip' < 0 \<or> limit' < 1 \<or> 1000 < limit' then Inl RequestValidationError
         else Inr (get_product_stock_history db pid skip' limit'))"

text \<open>
  The writing endpoints. Each parses its body against the schema and hands it to the
  operation of crud.py of the same name.
\<close>

datatype request =
    POST_category CategoryCreate
  | PUT_category int CategoryUpdate
  | DELETE_category int
  | POST_supplier SupplierCreate
  | PUT_supplier int SupplierUpdate
  | DELETE_supplier int
  | POST_product ProductCreate
  | PUT_product int ProductUpdate
  | DELETE_product int
  | POST_adjust_stock int StockAdjustment

datatype response =
    CategoryOut Category
  | SupplierOut Supplier
  | ProductOut Product
  | NoContent

definition reply :: "('a \<Rightarrow> response) \<Rightarrow> session \<times> (error + 'a) \<Rightarrow> session \<times> (error + response)" where
  "reply f r = (fst r, map_sum id f (snd r))"

fun handle :: "session \<Rightarrow> timestamp \<Rightarrow> request \<Rightarrow> session \<times> (error + response)" where
  "handle db now (POST_category b) =
     (if valid_CategoryCreate b then reply CategoryOut (create_category db b)
      else (db, Inl RequestValidationError))"
| "handle db now (PUT_category cid b) =
     (if valid_CategoryUpdate b then reply CategoryOut (update_category db cid b)
      else (db, Inl RequestValidationError))"
| "handle db now (DELETE_category cid) = reply (\<lambda>_. NoContent) (delete_category db cid)"
| "handle db now (POST_supplier b) =
     (if valid_SupplierCreate b then reply SupplierOut (create_supplier db b)
      else (db, Inl RequestValidationError))"
| "handle db now (PUT_supplier sid b) =
     (if valid_SupplierUpdate b then reply SupplierOut (update_supplier db sid b)
      else (db, Inl RequestValidationError))"
| "handle db now (DELETE_supplier sid) = reply (\<lambda>_. NoContent) (delete_supplier db sid)"
| "handle db now (POST_product b) =
     (if valid_ProductCreate b then reply ProductOut (create_product db now b)
      else (db, Inl RequestValidationError))"
| "handle db now (PUT_product pid b) =
     (if valid_ProductUpdate b then reply ProductOut (update_product db pid b)
      else (db, Inl RequestValidationError))"
| "handle db now (DELETE_product pid) = reply (\<lambda>_. NoContent) (delete_product db pid)"
| "handle db now (POST_adjust_stock pid b) =
     reply ProductOut (adjust_product_stock db now pid b)"

text \<open>A sequence of requests, each with the clock reading at which it is served.\<close>

fun serve :: "session \<Rightarrow> (timestamp \<times> request) list \<Rightarrow> session" where
  "serve db [] = db"
| "serve db ((now, r) # rs) = serve (fst (handle db now r)) rs"



section \<open>Sample data (tests/config_test.py, tests/products_test.py)\<close>

text \<open>
  The fixtures of the test suite, which runs on SQLite: one category, one supplier and
  one product with ten units in stock, and the request bodies that the tests send.
\<close>

definition sample_category :: Category where
  "sample_category =
     \<lparr>c_id = 1, c_name = ''Electronics'', c_description = Some ''Electronic products''\<rparr>"

definition sample_supplier :: Supplier where
  "sample_supplier =
     \<lparr>s_id = 1, s_name = ''Tech Supplies Inc'', contact_name = Some ''John Doe'',
      email = Some ''john@techsupplies.com'', phone = Some ''+1234567890'', address = None\<rparr>"

definition sample_product :: Product where
  "sample_product =
     \<lparr>p_id = 1, p_name = ''Laptop'', p_description = Some ''High-performance laptop'',
      sku = ''LAP-001'', price = 99999, stock_quantity = 10, reorder_level = 5,
      category_id = Some 1, supplier_id = Some 1\<rparr>"

definition sample_session :: session where
  "sample_session =
     open_session SQLite
       \<lparr>categories = [sample_category], suppliers = [sample_supplier],
        products = [sample_product], stock_movements = []\<rparr>"

definition wireless_mouse :: ProductCreate where
  "wireless_mouse =
     \<lparr>pc_name = ''Wireless Mouse'', pc_description = Some ''Ergonomic wireless mouse'',
      pc_sku = ''MOU-001'', pc_price = 2999, pc_stock_quantity = 50, pc_reorder_level = 10,
      pc_category_id = Some 1, pc_supplier_id = Some 1\<rparr>"

definition shipment :: StockAdjustment where
  "shipment = \<lparr>adj_quantity = 10, adj_notes = Some ''Test adjustment 1''\<rparr>"

definition sale :: StockAdjustment where
  "sale = \<lparr>adj_quantity = - 5, adj_notes = Some ''Test adjustment 2''\<rparr>"

definition oversell :: StockAdjustment where
  "oversell = \<lparr>adj_quantity = - 20, adj_notes = Some ''Try to oversell''\<rparr>"


text \<open>The session after the shipment has been booked at clock reading 100.\<close>

definition restocked_session :: session where
  "restocked_session = fst (adjust_product_stock sample_session 100 1 shipment)"

text \<open>An update body that gives nothing but a new stock quantity.\<close>

definition no_update :: ProductUpdate where
  "no_update =
     \<lparr>pu_name = Unset, pu_description = Unset, pu_sku = Unset, pu_price = Unset,
      pu_stock_quantity = Unset, pu_reorder_level = Unset, pu_category_id = Unset,
      pu_supplier_id = Unset\<rparr>"

definition stock_overwrite :: ProductUpdate where
  "stock_overwrite = no_update\<lparr>pu_stock_quantity := Given (Some 7)\<rparr>"

text \<open>The session after the mouse of \<open>test_create_product\<close> has been created as well.\<close>

definition stocked_session :: session where
  "stocked_session = fst (create_product sample_session 100 wireless_mouse)"

text \<open>An update body for the laptop that gives a quantity and the SKU of the mouse.\<close>

definition sku_clash :: ProductUpdate where
  "sku_clash = stock_overwrite\<lparr>pu_sku := Given (Some ''MOU-001'')\<rparr>"

text \<open>
  The same data on PostgreSQL, the backend that config.py names, and bodies with a
  quantity beyond 32 bits or with the reference 0.
\<close>

definition production_session :: session where
  "production_session = sample_session\<lparr>engine := PostgreSQL\<rparr>"

definition bulk :: StockAdjustment where
  "bulk = \<lparr>adj_quantity = 2147483638, adj_notes = None\<rparr>"

definition huge_mouse :: ProductCreate where
  "huge_mouse = wireless_mouse\<lparr>pc_stock_quantity := 2147483648\<rparr>"

definition orphan_mouse :: ProductCreate where
  "orphan_mouse = wireless_mouse\<lparr>pc_category_id := Some 0\<rparr>"

definition huge_overwrite :: ProductUpdate where
  "huge_overwrite = no_update\<lparr>pu_stock_quantity := Given (Some 2147483648)\<rparr>"

definition orphan_overwrite :: ProductUpdate where
  "orphan_overwrite = stock_overwrite\<lparr>pu_category_id := Given (Some 0)\<rparr>"

text \<open>Bodies that ask for a negative quantity, and a run of requests.\<close>

definition negative_mouse :: ProductCreate where
  "negative_mouse = wireless_mouse\<lparr>pc_stock_quantity := - 1\<rparr>"

definition negative_overwrite :: ProductUpdate where
  "negative_overwrite = no_update\<lparr>pu_stock_quantity := Given (Some (- 1))\<rparr>"

definition sample_requests :: "(timestamp \<times> request) list" where
  "sample_requests =
     [(100, POST_product wireless_mouse),
      (101, POST_adjust_stock 1 sale),
      (102, POST_adjust_stock 1 oversell),
      (103, PUT_product 1 negative_overwrite),
      (104, PUT_product 1 stock_overwrite),
      (105, POST_product negative_mouse)]"


section \<open>Invariant: no negative stock\<close>

definition stock_nonneg :: "database \<Rightarrow> bool" where
  "stock_nonneg d = list_all (\<lambda>p. 0 \<le> stock_quantity p) (products d)"

text \<open>
  Every product the session can show has a quantity of at least zero: in the stored
  data, in the pending data and in every state that was ever committed.
\<close>

definition session_nonneg :: "session \<Rightarrow> bool" where
  "session_nonneg db =
     (stock_nonneg (stored db) \<and> stock_nonneg (pending db) \<and>
      list_all stock_nonneg (commits db))"


section \<open>Auxiliary facts\<close>

lemma find_flush:
  "find (\<lambda>p. p_id p = pid) ps = Some P \<Longrightarrow> p_id row = pid \<Longrightarrow>
   find (\<lambda>p. p_id p = pid) (map (\<lambda>p. if p_id p = p_id row then row else p) ps) = Some row"
  by (induction ps) (auto split: if_splits)

lemma find_key: "find (\<lambda>p. f p = k) ps = Some P \<Longrightarrow> f P = k"
  by (induction ps) (auto split: if_splits)

lemma find_member: "find Q xs = Some x \<Longrightarrow> x \<in> set xs"
  by (induction xs) (auto split: if_splits)

lemma flush_keeps_keys:
  "map p_id (map (\<lambda>p. if p_id p = p_id row then row else p) ps) = map p_id ps"
  by (induction ps) auto

lemma commit_accepted:
  "flush_error (engine db) (pending db) (dirty db) = None \<Longrightarrow>
   commit_and_return db x =
     (db\<lparr>stored := pending db, dirty := [], commits := commits db @ [pending db]\<rparr>, Inr x)"
  by (simp add: commit_and_return_def commit_def)

lemma kind_fits:
  "varchar_ok be 50 ''stock_in''" "varchar_ok be 50 ''stock_out''"
  "varchar_ok be 50 ''initial_stock''" "text_ok be ''Initial stock entry''"
  by (cases be; simp)+


lemma sample_lookup: "get_product sample_session 1 = Some sample_product"
  by (simp add: get_product_def sample_session_def open_session_def sample_product_def)

lemma restocked_lookup:
  "get_product restocked_session 1 = Some (sample_product\<lparr>stock_quantity := 20\<rparr>)"
  by code_simp

lemma mouse_accepted:
  "valid_ProductCreate wireless_mouse \<and>
   get_product_by_sku sample_session (pc_sku wireless_mouse) = None \<and>
   missing_category sample_session (pc_category_id wireless_mouse) = None \<and>
   missing_supplier sample_session (pc_supplier_id wireless_mouse) = None \<and>
   dirty sample_session = [] \<and>
   data_fits (engine sample_session)
     (WriteProduct None (new_product sample_session wireless_mouse)) \<and>
   refs_exist (engine sample_session) (pending sample_session)
     (WriteProduct None (new_product sample_session wireless_mouse))"
  by (simp add: valid_ProductCreate_def wireless_mouse_def len_between_def
      get_product_by_sku_def sample_session_def open_session_def sample_product_def
      get_category_def get_supplier_def sample_category_def sample_supplier_def
      col_ok_def new_product_def)

lemma foldr_insort_newest:
  "\<forall>x\<in>set xs. f e < f x \<Longrightarrow>
   foldr (insort_key f) xs [e] = e # foldr (insort_key f) xs []"
  by (induction xs) auto

lemma sort_key_snoc_newest:
  "\<forall>x\<in>set xs. f e < f x \<Longrightarrow> sort_key f (xs @ [e]) = e # sort_key f xs"
  by (simp add: sort_key_def foldr_insort_newest)

text \<open>What an adjustment that passes its own check hands to the commit.\<close>

lemma adjust_accepted:
  assumes "get_product db pid = Some P"
    and "dirty db = []"
    and "0 \<le> stock_quantity P + adj_quantity a"
    and "integer_ok (engine db) (stock_quantity P + adj_quantity a)"
    and "integer_ok (engine db) (adj_quantity a)"
    and "opt_ok (text_ok (engine db)) (adj_notes a)"
  shows "snd (adjust_product_stock db now pid a) =
           Inr (P\<lparr>stock_quantity := stock_quantity P + adj_quantity a\<rparr>)"
    and "pending (fst (adjust_product_stock db now pid a)) =
           (pending db)
           \<lparr>products :=
              map (\<lambda>p. if p_id p = pid
                        then P\<lparr>stock_quantity := stock_quantity P + adj_quantity a\<rparr>
                        else p) (products (pending db)),
            stock_movements :=
              stock_movements (pending db) @
                [\<lparr>m_id = next_id (map m_id (stock_movements (pending db))),
                  product_id = pid, quantity = adj_quantity a,
                  movement_type = (if 0 < adj_quantity a then ''stock_in'' else ''stock_out''),
                  m_notes = adj_notes a, created_at = now\<rparr>]\<rparr>"
    and "stored (fst (adjust_product_stock db now pid a)) =
           pending (fst (adjust_product_stock db now pid a))"
    and "commits (fst (adjust_product_stock db now pid a)) =
           commits db @ [pending (fst (adjust_product_stock db now pid a))]"
proof -
  let ?P' = "P\<lparr>stock_quantity := stock_quantity P + adj_quantity a\<rparr>"
  let ?kind = "if 0 < adj_quantity a then ''stock_in'' else ''stock_out''"
  let ?db2 = "add_stock_movement now pid (adj_quantity a) ?kind (adj_notes a)
                (flush_product P ?P' db)"
  have found: "find (\<lambda>p. p_id p = pid) (products (pending db)) = Some P"
    using assms(1) by (simp add: get_product_def)
  then have key: "p_id P = pid"
    by (rule find_key)
  from found have "P \<in> set (products (pending db))"
    by (rule find_member)
  then have known: "pid \<in> p_id ` set (products (pending db))"
    using key by force
  have kind: "varchar_ok (engine db) 50 ?kind"
    by (simp add: kind_fits)
  have update: "write_error (engine db) (pending ?db2) (WriteProduct (Some P) ?P') = None"
    using assms(4) by (simp add: write_error_def col_ok_def)
  have keys: "map p_id (products (pending ?db2)) = map p_id (products (pending db))"
    using flush_keeps_keys [of ?P' "products (pending db)"]
    by (simp add: add_stock_movement_def flush_product_def Let_def)
  have insert: "write_error (engine db) (pending ?db2)
      (WriteMovement \<lparr>m_id = next_id (map m_id (stock_movements (pending db))),
         product_id = pid, quantity = adj_quantity a, movement_type = ?kind,
         m_notes = adj_notes a, created_at = now\<rparr>) = None"
    using assms(5,6) kind known by (simp add: write_error_def keys)
  have writes: "dirty ?db2 =
      [WriteProduct (Some P) ?P',
       WriteMovement \<lparr>m_id = next_id (map m_id (stock_movements (pending db))),
         product_id = pid, quantity = adj_quantity a, movement_type = ?kind,
         m_notes = adj_notes a, created_at = now\<rparr>]"
    using assms(2) by (simp add: add_stock_movement_def flush_product_def Let_def)
  have "flush_error (engine ?db2) (pending ?db2) (dirty ?db2) = None"
    unfolding writes using update insert
    by (simp add: add_stock_movement_def flush_product_def Let_def)
  from commit_accepted [OF this, of ?P']
  have "commit_and_return ?db2 ?P' =
      (?db2\<lparr>stored := pending ?db2, dirty := [], commits := commits ?db2 @ [pending ?db2]\<rparr>,
       Inr ?P')" .
  moreover have "adjust_product_stock db now pid a = commit_and_return ?db2 ?P'"
    using assms(1,3) by (simp add: adjust_product_stock_def Let_def)
  ultimately have run: "adjust_product_stock db now pid a =
      (?db2\<lparr>stored := pending ?db2, dirty := [], commits := commits ?db2 @ [pending ?db2]\<rparr>,
       Inr ?P')"
    by simp
  show "snd (adjust_product_stock db now pid a) = Inr ?P'"
    by (simp add: run)
  show "pending (fst (adjust_product_stock db now pid a)) =
           (pending db)
           \<lparr>products := map (\<lambda>p. if p_id p = pid then ?P' else p) (products (pending db)),
            stock_movements :=
              stock_movements (pending db) @
                [\<lparr>m_id = next_id (map m_id (stock_movements (pending db))),
                  product_id = pid, quantity = adj_quantity a, movement_type = ?kind,
                  m_notes = adj_notes a, created_at = now\<rparr>]\<rparr>"
    by (simp add: run add_stock_movement_def flush_product_def Let_def key)
  show "stored (fst (adjust_product_stock db now pid a)) =
          pending (fst (adjust_product_stock db now pid a))"
    by (simp add: run)
  show "commits (fst (adjust_product_stock db now pid a)) =
          commits db @ [pending (fst (adjust_product_stock db now pid a))]"
    by (simp add: run add_stock_movement_def flush_product_def Let_def)
qed


section \<open>Stock adjustment: the delta is applied and recorded\<close>

text \<open>
  Claim C1, amended. Let \<open>P\<close> be an existing product and \<open>d\<close> a delta with
  \<open>stock_quantity P + d \<ge> 0\<close>, in a session with nothing left to flush, such that \<open>d\<close>
  and \<open>stock_quantity P + d\<close> fit the integer column of the backend and the note can be
  stored. Then \<open>adjust_product_stock\<close> succeeds and returns \<open>P\<close> with the quantity
  \<open>stock_quantity P + d\<close>; the same row is read back from the session, whose data is
  committed; and exactly one movement is appended, for this product and with quantity
  \<open>d\<close>. If moreover the clock reading \<open>now\<close> of the adjustment is strictly later than
  \<open>created_at\<close> of every earlier movement of the product, that movement is the first row
  of the stock history as the endpoint returns it with its default paging.
\<close>

theorem adjust_applies_delta:
  assumes "get_product db pid = Some P"
    and "dirty db = []"
    and "0 \<le> stock_quantity P + adj_quantity a"
    and "integer_ok (engine db) (stock_quantity P + adj_quantity a)"
    and "integer_ok (engine db) (adj_quantity a)"
    and "opt_ok (text_ok (engine db)) (adj_notes a)"
  shows "\<exists>db' e.
           adjust_product_stock db now pid a =
             (db', Inr (P\<lparr>stock_quantity := stock_quantity P + adj_quantity a\<rparr>)) \<and>
           get_product db' pid =
             Some (P\<lparr>stock_quantity := stock_quantity P + adj_quantity a\<rparr>) \<and>
           stored db' = pending db' \<and>
           stock_movements (pending db') = stock_movements (pending db) @ [e] \<and>
           product_id e = pid \<and> quantity e = adj_quantity a \<and>
           ((\<forall>m\<in>set (stock_movements (pending db)).
               product_id m = pid \<longrightarrow> created_at m < now) \<longrightarrow>
            get_stock_history db' pid None None =
              Inr (e # get_product_stock_history db pid 0 99))"
proof -
  let ?P' = "P\<lparr>stock_quantity := stock_quantity P + adj_quantity a\<rparr>"
  let ?e = "\<lparr>m_id = next_id (map m_id (stock_movements (pending db))),
             product_id = pid, quantity = adj_quantity a,
             movement_type = (if 0 < adj_quantity a then ''stock_in'' else ''stock_out''),
             m_notes = adj_notes a, created_at = now\<rparr>"
  let ?db' = "fst (adjust_product_stock db now pid a)"
  note outcome = adjust_accepted [OF assms, of now]
  have run: "adjust_product_stock db now pid a = (?db', Inr ?P')"
    using outcome(1) by (simp add: prod_eq_iff)
  have found: "find (\<lambda>p. p_id p = pid) (products (pending db)) = Some P"
    using assms(1) by (simp add: get_product_def)
  then have key: "p_id P = pid"
    by (rule find_key)
  have "find (\<lambda>p. p_id p = pid)
          (map (\<lambda>p. if p_id p = p_id ?P' then ?P' else p) (products (pending db))) = Some ?P'"
    using found by (rule find_flush) (simp add: key)
  then have read: "get_product ?db' pid = Some ?P'"
    by (simp add: get_product_def outcome(2) key)
  have moves: "stock_movements (pending ?db') = stock_movements (pending db) @ [?e]"
    by (simp add: outcome(2))
  have hist: "get_stock_history ?db' pid None None =
                Inr (?e # get_product_stock_history db pid 0 99)"
    if later: "\<forall>m\<in>set (stock_movements (pending db)).
                 product_id m = pid \<longrightarrow> created_at m < now"
  proof -
    have newest: "\<forall>x\<in>set (filter (\<lambda>m. product_id m = pid) (stock_movements (pending db))).
                    - created_at ?e < - created_at x"
      using later by simp
    show ?thesis
      unfolding get_stock_history_def get_product_stock_history_def moves
      using sort_key_snoc_newest [OF newest]
      by (simp add: take_Cons')
  qed
  from run read outcome(3) moves hist show ?thesis
    by (intro exI [of _ ?db'] exI [of _ ?e]) simp
qed


text \<open>
  The premises hold, and the conclusion shows, in the session with the shipment booked at
  clock reading 100, when the sale is booked at 101.
\<close>

theorem adjust_applies_delta_witness:
  "get_product restocked_session 1 = Some (sample_product\<lparr>stock_quantity := 20\<rparr>) \<and>
   dirty restocked_session = [] \<and>
   0 \<le> stock_quantity (sample_product\<lparr>stock_quantity := 20\<rparr>) + adj_quantity sale \<and>
   integer_ok (engine restocked_session)
     (stock_quantity (sample_product\<lparr>stock_quantity := 20\<rparr>) + adj_quantity sale) \<and>
   integer_ok (engine restocked_session) (adj_quantity sale) \<and>
   opt_ok (text_ok (engine restocked_session)) (adj_notes sale) \<and>
   list_all (\<lambda>m. created_at m < 101) (stock_movements (pending restocked_session)) \<and>
   snd (adjust_product_stock restocked_session 101 1 sale) =
     Inr (sample_product\<lparr>stock_quantity := 15\<rparr>) \<and>
   map quantity
     (get_product_stock_history (fst (adjust_product_stock restocked_session 101 1 sale))
        1 0 100) = [- 5, 10]"
proof -
  have clean: "dirty restocked_session = []"
    by code_simp
  have sqlite: "engine restocked_session = SQLite"
    by code_simp
  have enough: "0 \<le> stock_quantity (sample_product\<lparr>stock_quantity := 20\<rparr>) + adj_quantity sale"
    by (simp add: sale_def)
  have fits: "integer_ok (engine restocked_session)
      (stock_quantity (sample_product\<lparr>stock_quantity := 20\<rparr>) + adj_quantity sale)"
    "integer_ok (engine restocked_session) (adj_quantity sale)"
    "opt_ok (text_ok (engine restocked_session)) (adj_notes sale)"
    by (simp_all add: sqlite sale_def)
  have earlier: "list_all (\<lambda>m. created_at m < 101) (stock_movements (pending restocked_session))"
    by code_simp
  have order: "map quantity
     (get_product_stock_history (fst (adjust_product_stock restocked_session 101 1 sale))
        1 0 100) = [- 5, 10]"
    by code_simp
  from adjust_applies_delta [OF restocked_lookup clean enough fits]
  obtain db' where "adjust_product_stock restocked_session 101 1 sale =
      (db', Inr (sample_product\<lparr>stock_quantity := 20,
         stock_quantity := stock_quantity (sample_product\<lparr>stock_quantity := 20\<rparr>) +
           adj_quantity sale\<rparr>))"
    by blast
  then have result: "snd (adjust_product_stock restocked_session 101 1 sale) =
      Inr (sample_product\<lparr>stock_quantity := 15\<rparr>)"
    by (simp add: sale_def)
  from restocked_lookup clean enough fits earlier result order show ?thesis
    by (intro conjI)
qed

text \<open>
  The claim as it stands fails in two ways. First, the new movement need not come first.
  The two adjustments of \<open>test_get_stock_history\<close> follow each other at once; when the
  clock has not advanced between them (reading 100 twice), or has been set back (reading
  99), the history still begins with the shipment and the sale comes second. Second, an
  adjustment with \<open>stock_quantity P + d \<ge> 0\<close> need not succeed: on PostgreSQL, adding
  2147483638 to the ten units of the laptop leaves the 32 bits of the column, the commit
  raises, and the session is what it was.
\<close>

theorem adjust_history_tie_counterexample:
  "get_product restocked_session 1 = Some (sample_product\<lparr>stock_quantity := 20\<rparr>) \<and>
   0 \<le> stock_quantity (sample_product\<lparr>stock_quantity := 20\<rparr>) + adj_quantity sale \<and>
   map quantity
     (get_product_stock_history (fst (adjust_product_stock restocked_session 100 1 sale))
        1 0 100) = [10, - 5] \<and>
   map quantity
     (get_product_stock_history (fst (adjust_product_stock restocked_session 99 1 sale))
        1 0 100) = [10, - 5] \<and>
   get_product production_session 1 = Some sample_product \<and>
   0 \<le> stock_quantity sample_product + adj_quantity bulk \<and>
   adjust_product_stock production_session 100 1 bulk = (production_session, Inl DataError)"
proof -
  have enough: "0 \<le> stock_quantity (sample_product\<lparr>stock_quantity := 20\<rparr>) + adj_quantity sale"
    by (simp add: sale_def)
  have tie: "map quantity
     (get_product_stock_history (fst (adjust_product_stock restocked_session 100 1 sale))
        1 0 100) = [10, - 5]"
    by code_simp
  have behind: "map quantity
     (get_product_stock_history (fst (adjust_product_stock restocked_session 99 1 sale))
        1 0 100) = [10, - 5]"
    by code_simp
  have laptop: "get_product production_session 1 = Some sample_product"
    by code_simp
  have room: "0 \<le> stock_quantity sample_product + adj_quantity bulk"
    by (simp add: sample_product_def bulk_def)
  have refused: "adjust_product_stock production_session 100 1 bulk =
      (production_session, Inl DataError)"
    by code_simp
  from restocked_lookup enough tie behind laptop room refused show ?thesis
    by (intro conjI)
qed


section \<open>Stock adjustment: refusal and classification\<close>

text \<open>
  Claim C2. When the product exists and its quantity plus the delta is negative,
  \<open>adjust_product_stock\<close> raises the 400 error whose text carries the current quantity
  and the absolute value of the delta, and the session is exactly what it was: the
  stored data, the pending data and the list of commits are unchanged, so a later read
  of the product and of its stock history gives what it gave before.
\<close>

theorem adjust_insufficient_stock:
  assumes "get_product db pid = Some P"
    and "stock_quantity P + adj_quantity a < 0"
  shows "adjust_product_stock db now pid a =
           (db, Inl (HTTPException 400
              (''Insufficient stock. Current: '' @ str_int (stock_quantity P) @
               '', Requested: '' @ str_int \<bar>adj_quantity a\<bar>))) \<and>
         get_product (fst (adjust_product_stock db now pid a)) pid = Some P \<and>
         get_product_stock_history (fst (adjust_product_stock db now pid a)) pid skip limit =
           get_product_stock_history db pid skip limit"
  using assms by (simp add: adjust_product_stock_def)

theorem adjust_insufficient_stock_witness:
  "get_product sample_session 1 = Some sample_product \<and>
   stock_quantity sample_product + adj_quantity oversell < 0 \<and>
   adjust_product_stock sample_session 100 1 oversell =
     (sample_session,
      Inl (HTTPException 400 ''Insufficient stock. Current: 10, Requested: 20''))"
proof -
  have short: "stock_quantity sample_product + adj_quantity oversell < 0"
    by (simp add: sample_product_def oversell_def)
  have msg: "''Insufficient stock. Current: '' @ str_int (stock_quantity sample_product) @
              '', Requested: '' @ str_int \<bar>adj_quantity oversell\<bar> =
              ''Insufficient stock. Current: 10, Requested: 20''"
    by code_simp
  show ?thesis
    using adjust_insufficient_stock [OF sample_lookup short, of 100 0 100] short sample_lookup
    unfolding msg by simp
qed




section \<open>Reorder evaluation\<close>

text \<open>
  Claim C4. \<open>needs_reorder\<close> holds exactly when the quantity is at most the reorder
  level, and \<open>get_low_stock_products\<close> returns exactly the products for which it holds:
  a product at its reorder level is listed, a product one unit above is not.
\<close>

theorem low_stock_is_needs_reorder:
  "needs_reorder p = (stock_quantity p \<le> reorder_level p) \<and>
   get_low_stock_products db = filter needs_reorder (products (pending db)) \<and>
   (p \<in> set (products (pending db)) \<and> stock_quantity p = reorder_level p \<longrightarrow>
      p \<in> set (get_low_stock_products db)) \<and>
   (stock_quantity p = reorder_level p + 1 \<longrightarrow> p \<notin> set (get_low_stock_products db))"
proof -
  have "needs_reorder = (\<lambda>q. stock_quantity q \<le> reorder_level q)"
    by (simp add: fun_eq_iff needs_reorder_def)
  then show ?thesis
    by (simp add: get_low_stock_products_def needs_reorder_def)
qed

theorem low_stock_is_needs_reorder_witness:
  "sample_product\<lparr>stock_quantity := 5\<rparr> \<in> set [sample_product\<lparr>stock_quantity := 5\<rparr>] \<and>
   stock_quantity (sample_product\<lparr>stock_quantity := 5\<rparr>) =
     reorder_level (sample_product\<lparr>stock_quantity := 5\<rparr>) \<and>
   sample_product\<lparr>stock_quantity := 5\<rparr> \<in> set (get_low_stock_products
      (open_session SQLite \<lparr>categories = [], suppliers = [],
         products = [sample_product\<lparr>stock_quantity := 5\<rparr>], stock_movements = []\<rparr>)) \<and>
   stock_quantity (sample_product\<lparr>stock_quantity := 6\<rparr>) =
     reorder_level (sample_product\<lparr>stock_quantity := 6\<rparr>) + 1 \<and>
   sample_product\<lparr>stock_quantity := 6\<rparr> \<notin> set (get_low_stock_products
      (open_session SQLite \<lparr>categories = [], suppliers = [],
         products = [sample_product\<lparr>stock_quantity := 6\<rparr>], stock_movements = []\<rparr>))"
  using low_stock_is_needs_reorder
      [of "sample_product\<lparr>stock_quantity := 5\<rparr>"
          "open_session SQLite \<lparr>categories = [], suppliers = [],
             products = [sample_product\<lparr>stock_quantity := 5\<rparr>], stock_movements = []\<rparr>"]
    low_stock_is_needs_reorder
      [of "sample_product\<lparr>stock_quantity := 6\<rparr>"
          "open_session SQLite \<lparr>categories = [], suppliers = [],
             products = [sample_product\<lparr>stock_quantity := 6\<rparr>], stock_movements = []\<rparr>"]
  by (simp add: open_session_def sample_product_def)


section \<open>Product creation and the initial movement\<close>

text \<open>
  Claim C5, amended. Take a creation request that passes the schema and the checks of
  \<open>create_product\<close> (its SKU is free; its category and supplier, when given and not
  zero, exist), in a session with nothing left to flush, and whose row the backend
  accepts: the values fit their columns and, where foreign keys are enforced, the
  category and the supplier it names exist. Then the product is stored, under the key
  it is given, with the requested quantity. When that quantity is not zero, exactly one
  movement is created for the new product, with that quantity and the kind
  \<open>initial_stock\<close>; it is written by a second commit, after the commit that stored the
  product, so the stored data passes through a state that holds the product without its
  movement. When the quantity is zero there is one commit and no movement.
\<close>

theorem create_product_initial_stock:
  assumes "valid_ProductCreate b"
    and "get_product_by_sku db (pc_sku b) = None"
    and "missing_category db (pc_category_id b) = None"
    and "missing_supplier db (pc_supplier_id b) = None"
    and "dirty db = []"
    and "data_fits (engine db) (WriteProduct None (new_product db b))"
    and "refs_exist (engine db) (pending db) (WriteProduct None (new_product db b))"
  shows "\<exists>row d1.
           snd (create_product db now b) = Inr row \<and>
           row = (new_product db b)\<lparr>p_id := p_id row\<rparr> \<and>
           stock_quantity row = pc_stock_quantity b \<and>
           d1 = (pending db)\<lparr>products := products (pending db) @ [row]\<rparr> \<and>
           (if pc_stock_quantity b \<noteq> 0 then
              \<exists>e. product_id e = p_id row \<and>
                  quantity e = pc_stock_quantity b \<and>
                  movement_type e = ''initial_stock'' \<and>
                  stored (fst (create_product db now b)) =
                    d1\<lparr>stock_movements := stock_movements (pending db) @ [e]\<rparr> \<and>
                  commits (fst (create_product db now b)) =
                    commits db @
                      [d1, d1\<lparr>stock_movements := stock_movements (pending db) @ [e]\<rparr>]
            else stored (fst (create_product db now b)) = d1 \<and>
                 commits (fst (create_product db now b)) = commits db @ [d1])"
proof -
  let ?row = "new_product db b"
  let ?e = "\<lparr>m_id = next_id (map m_id (stock_movements (pending db))),
              product_id = p_id ?row, quantity = pc_stock_quantity b,
              movement_type = ''initial_stock'', m_notes = Some ''Initial stock entry'',
              created_at = now\<rparr>"
  let ?d1 = "(pending db)\<lparr>products := products (pending db) @ [?row]\<rparr>"
  let ?d2 = "?d1\<lparr>stock_movements := stock_movements (pending db) @ [?e]\<rparr>"
  let ?db1 = "db\<lparr>stored := ?d1, pending := ?d1, dirty := [], commits := commits db @ [?d1]\<rparr>"
  have nonneg: "0 \<le> pc_stock_quantity b"
    using assms(1) by (simp add: valid_ProductCreate_def)
  have stock: "stock_quantity ?row = pc_stock_quantity b"
    by (simp add: new_product_def)
  have "write_error (engine db) ?d1 (WriteProduct None ?row) = None"
    using assms(6,7) by (simp add: write_error_def col_ok_def split: if_splits)
  then have first: "commit (add_product ?row db) = Inr ?db1"
    using assms(5) by (simp add: commit_def add_product_def)
  have fits: "integer_ok (engine db) (pc_stock_quantity b)"
    using assms(6) by (simp add: col_ok_def new_product_def)
  show ?thesis
  proof (cases "pc_stock_quantity b = 0")
    case True
    then have "create_product db now b = (?db1, Inr ?row)"
      using assms(2-4) first by (simp add: create_product_def Let_def)
    with stock True show ?thesis
      by (intro exI [of _ ?row] exI [of _ ?d1]) simp
  next
    case False
    with nonneg have pos: "0 < pc_stock_quantity b"
      by simp
    let ?db2 = "add_stock_movement now (p_id ?row) (pc_stock_quantity b) ''initial_stock''
                  (Some ''Initial stock entry'') ?db1"
    have "write_error (engine db) ?d2 (WriteMovement ?e) = None"
      using fits by (simp add: write_error_def kind_fits)
    then have "flush_error (engine ?db2) (pending ?db2) (dirty ?db2) = None"
      by (simp add: add_stock_movement_def Let_def)
    from commit_accepted [OF this, of ?row]
    have "create_product db now b =
        (?db2\<lparr>stored := pending ?db2, dirty := [], commits := commits ?db2 @ [pending ?db2]\<rparr>,
         Inr ?row)"
      using assms(2-4) first pos by (simp add: create_product_def Let_def)
    then have result: "snd (create_product db now b) = Inr ?row"
      and "stored (fst (create_product db now b)) = ?d2"
      and "commits (fst (create_product db now b)) = commits db @ [?d1, ?d2]"
      by (simp_all add: add_stock_movement_def Let_def)
    then have "\<exists>e. product_id e = p_id ?row \<and> quantity e = pc_stock_quantity b \<and>
                  movement_type e = ''initial_stock'' \<and>
                  stored (fst (create_product db now b)) =
                    ?d1\<lparr>stock_movements := stock_movements (pending db) @ [e]\<rparr> \<and>
                  commits (fst (create_product db now b)) =
                    commits db @
                      [?d1, ?d1\<lparr>stock_movements := stock_movements (pending db) @ [e]\<rparr>]"
      by (intro exI [of _ ?e]) simp
    with result stock False show ?thesis
      by (intro exI [of _ ?row] exI [of _ ?d1]) simp
  qed
qed

text \<open>The mouse of \<open>test_create_product\<close>, with fifty units, in the sample session.\<close>

theorem create_product_initial_stock_witness:
  "valid_ProductCreate wireless_mouse \<and>
   get_product_by_sku sample_session (pc_sku wireless_mouse) = None \<and>
   missing_category sample_session (pc_category_id wireless_mouse) = None \<and>
   missing_supplier sample_session (pc_supplier_id wireless_mouse) = None \<and>
   dirty sample_session = [] \<and>
   data_fits (engine sample_session) (WriteProduct None (new_product sample_session wireless_mouse)) \<and>
   refs_exist (engine sample_session) (pending sample_session)
     (WriteProduct None (new_product sample_session wireless_mouse)) \<and>
   pc_stock_quantity wireless_mouse = 50 \<and>
   map quantity (stock_movements (stored (fst (create_product sample_session 100 wireless_mouse))))
     = [50] \<and>
   map movement_type
     (stock_movements (stored (fst (create_product sample_session 100 wireless_mouse))))
     = [''initial_stock''] \<and>
   length (commits (fst (create_product sample_session 100 wireless_mouse))) = 2"
proof -
  have empty: "stock_movements (pending sample_session) = []" "commits sample_session = []"
    by (simp_all add: sample_session_def open_session_def)
  have fifty: "pc_stock_quantity wireless_mouse = 50"
    by (simp add: wireless_mouse_def)
  from mouse_accepted have a: "valid_ProductCreate wireless_mouse"
    and b: "get_product_by_sku sample_session (pc_sku wireless_mouse) = None"
    and c: "missing_category sample_session (pc_category_id wireless_mouse) = None"
    and d: "missing_supplier sample_session (pc_supplier_id wireless_mouse) = None"
    and e: "dirty sample_session = []"
    and f: "data_fits (engine sample_session)
              (WriteProduct None (new_product sample_session wireless_mouse))"
    and g: "refs_exist (engine sample_session) (pending sample_session)
              (WriteProduct None (new_product sample_session wireless_mouse))"
    by simp_all
  from create_product_initial_stock [OF a b c d e f g, of 100]
  obtain m where "quantity m = 50" "movement_type m = ''initial_stock''"
    "stock_movements (stored (fst (create_product sample_session 100 wireless_mouse))) = [m]"
    "length (commits (fst (create_product sample_session 100 wireless_mouse))) = 2"
    by (auto simp: fifty empty)
  with a b c d e f g fifty show ?thesis
    by simp
qed

text \<open>
  The claim as it stands fails in two ways. First, the product and its movement are not
  written as one unit: the first state committed by the creation of the mouse already
  holds the product and holds no movement. Second, a request that passes the schema and
  the checks need not create anything: on PostgreSQL a quantity of \<open>2^31\<close> does not fit
  the column, and the category 0, which \<open>if product.category_id:\<close> lets through, breaks
  the foreign key; the first commit raises and the session is what it was.
\<close>

theorem create_product_not_atomic_counterexample:
  "valid_ProductCreate wireless_mouse \<and>
   pc_stock_quantity wireless_mouse = 50 \<and>
   commits sample_session = [] \<and>
   map sku (products (hd (commits (fst (create_product sample_session 100 wireless_mouse)))))
     = [''LAP-001'', ''MOU-001''] \<and>
   stock_movements (hd (commits (fst (create_product sample_session 100 wireless_mouse)))) = [] \<and>
   valid_ProductCreate huge_mouse \<and>
   create_product production_session 100 huge_mouse = (production_session, Inl DataError) \<and>
   valid_ProductCreate orphan_mouse \<and>
   create_product production_session 100 orphan_mouse =
     (production_session, Inl IntegrityError)"
proof -
  have journal: "commits sample_session = []"
    by (simp add: sample_session_def open_session_def)
  have fifty: "pc_stock_quantity wireless_mouse = 50"
    by (simp add: wireless_mouse_def)
  have valid: "valid_ProductCreate wireless_mouse" "valid_ProductCreate huge_mouse"
    "valid_ProductCreate orphan_mouse"
    by (simp_all add: valid_ProductCreate_def wireless_mouse_def huge_mouse_def
        orphan_mouse_def len_between_def)
  have skus: "map sku (products (hd (commits
      (fst (create_product sample_session 100 wireless_mouse))))) = [''LAP-001'', ''MOU-001'']"
    by code_simp
  have none: "stock_movements (hd (commits
      (fst (create_product sample_session 100 wireless_mouse)))) = []"
    by code_simp
  have huge: "create_product production_session 100 huge_mouse =
      (production_session, Inl DataError)"
    by code_simp
  have orphan: "create_product production_session 100 orphan_mouse =
      (production_session, Inl IntegrityError)"
    by code_simp
  from valid fifty journal skus none huge orphan show ?thesis
    by (intro conjI)
qed


section \<open>Deleting a category or a supplier\<close>

text \<open>
  Claim C6. Evaluation at the fixtures: the laptop refers to category 1 and supplier 1.
  Deleting the category succeeds and leaves no product behind, and so does deleting the
  supplier: the product is deleted with its parent, it does not survive with a null
  reference.
\<close>

theorem delete_category_deletes_products:
  "get_category sample_session 1 = Some sample_category \<and>
   category_id sample_product = Some 1 \<and>
   products (stored sample_session) = [sample_product] \<and>
   snd (delete_category sample_session 1) = Inr () \<and>
   products (stored (fst (delete_category sample_session 1))) = [] \<and>
   get_supplier sample_session 1 = Some sample_supplier \<and>
   supplier_id sample_product = Some 1 \<and>
   snd (delete_supplier sample_session 1) = Inr () \<and>
   products (stored (fst (delete_supplier sample_session 1))) = []"
  by (simp add: delete_category_def get_category_def delete_supplier_def get_supplier_def
      sample_session_def open_session_def sample_category_def sample_supplier_def
      sample_product_def session_delete_category_def session_delete_supplier_def
      commit_and_return_def commit_def)


section \<open>The stock history endpoint\<close>

text \<open>
  Claim C7, amended. A stock history request whose \<open>skip\<close> is negative or whose
  \<open>limit\<close> is below 1 or above 1000 is refused with a request validation error; no
  history is returned for clamped values.
\<close>

theorem stock_history_rejects_out_of_range:
  assumes "skip < 0 \<or> limit < 1 \<or> 1000 < limit"
  shows "get_stock_history db pid (Some skip) (Some limit) = Inl RequestValidationError \<and>
         (skip < 0 \<longrightarrow> get_stock_history db pid (Some skip) None = Inl RequestValidationError) \<and>
         (limit < 1 \<or> 1000 < limit \<longrightarrow>
            get_stock_history db pid None (Some limit) = Inl RequestValidationError)"
  using assms by (auto simp: get_stock_history_def)

theorem stock_history_rejects_out_of_range_witness:
  "((- 3 :: int) < 0 \<or> (5000 :: int) < 1 \<or> (1000 :: int) < 5000) \<and>
   get_stock_history restocked_session 1 (Some (- 3)) (Some 5000) = Inl RequestValidationError \<and>
   get_stock_history restocked_session 1 (Some (- 3)) None = Inl RequestValidationError \<and>
   get_stock_history restocked_session 1 None (Some 5000) = Inl RequestValidationError"
  using stock_history_rejects_out_of_range [of "- 3" 5000 restocked_session 1]
  by simp

text \<open>
  Clamping \<open>skip = -3\<close> and \<open>limit = 5000\<close> would give the history for 0 and 1000, which
  has one row; the endpoint answers with the validation error instead, as it does for
  \<open>limit = 0\<close>.
\<close>

theorem stock_history_not_clamped_counterexample:
  "get_product_stock_history restocked_session 1 0 1000 =
     [\<lparr>m_id = 1, product_id = 1, quantity = 10, movement_type = ''stock_in'',
       m_notes = Some ''Test adjustment 1'', created_at = 100\<rparr>] \<and>
   get_stock_history restocked_session 1 (Some (- 3)) (Some 5000) = Inl RequestValidationError \<and>
   get_stock_history restocked_session 1 (Some 0) (Some 0) = Inl RequestValidationError"
proof -
  have clamped: "get_product_stock_history restocked_session 1 0 1000 =
     [\<lparr>m_id = 1, product_id = 1, quantity = 10, movement_type = ''stock_in'',
       m_notes = Some ''Test adjustment 1'', created_at = 100\<rparr>]"
    by code_simp
  then show ?thesis
    by (simp add: get_stock_history_def)
qed

text \<open>
  Claim C8. Evaluation at a product id that does not exist: the endpoint does not look
  the product up and answers with the empty list, not with a 404 error.
\<close>

theorem stock_history_of_missing_product:
  "get_product restocked_session 99999 = None \<and>
   get_stock_history restocked_session 99999 None None = Inr []"
proof -
  have absent: "get_product restocked_session 99999 = None"
    by code_simp
  have answer: "get_stock_history restocked_session 99999 None None = Inr []"
    by code_simp
  from absent answer show ?thesis
    by simp
qed


section \<open>The generic update bypasses the ledger\<close>

lemma assign_product_stock:
  "assign_product u P = Some row \<Longrightarrow>
   set_required (pu_stock_quantity u) (stock_quantity P) = Some (stock_quantity row)"
  by (auto simp: assign_product_def bind_eq_Some_conv)

lemma assign_product_key: "assign_product u P = Some row \<Longrightarrow> p_id row = p_id P"
  by (auto simp: assign_product_def bind_eq_Some_conv)

lemma overwrite_accepted:
  "get_product production_session 1 = Some sample_product \<and>
   pu_stock_quantity stock_overwrite = Given (Some 7) \<and>
   sku_conflict production_session 1 (attr (pu_sku stock_overwrite)) = None \<and>
   missing_category production_session (attr (pu_category_id stock_overwrite)) = None \<and>
   missing_supplier production_session (attr (pu_supplier_id stock_overwrite)) = None \<and>
   assign_product stock_overwrite sample_product = Some (sample_product\<lparr>stock_quantity := 7\<rparr>) \<and>
   dirty production_session = [] \<and>
   data_fits (engine production_session)
     (WriteProduct (Some sample_product) (sample_product\<lparr>stock_quantity := 7\<rparr>)) \<and>
   refs_exist (engine production_session) (pending production_session)
     (WriteProduct (Some sample_product) (sample_product\<lparr>stock_quantity := 7\<rparr>))"
  by (simp add: get_product_def production_session_def sample_session_def open_session_def
      sample_product_def stock_overwrite_def no_update_def assign_product_def col_ok_def)

text \<open>
  Claim C9, amended. Take an existing product and an update request that gives a
  \<open>stock_quantity\<close> value and passes the checks of \<open>update_product\<close> (its SKU, when given
  and not empty, is not the SKU of another product; its category and supplier, when
  given and not zero, exist), that gives no null to a required column, in a session
  with nothing left to flush, and whose changes the backend accepts: the changed values
  fit their columns and, where foreign keys are enforced, a changed category or
  supplier reference names an existing row. Then \<open>update_product\<close> succeeds, the
  product returned and stored has the given quantity, and the stock movements are what
  they were: the change leaves no record in the ledger.
\<close>

theorem update_product_overwrites_stock:
  assumes "get_product db pid = Some P"
    and "pu_stock_quantity u = Given (Some v)"
    and "sku_conflict db pid (attr (pu_sku u)) = None"
    and "missing_category db (attr (pu_category_id u)) = None"
    and "missing_supplier db (attr (pu_supplier_id u)) = None"
    and "assign_product u P = Some row"
    and "dirty db = []"
    and "data_fits (engine db) (WriteProduct (Some P) row)"
    and "refs_exist (engine db) (pending db) (WriteProduct (Some P) row)"
  shows "snd (update_product db pid u) = Inr row \<and>
         stock_quantity row = v \<and>
         get_product (fst (update_product db pid u)) pid = Some row \<and>
         stored (fst (update_product db pid u)) = pending (fst (update_product db pid u)) \<and>
         stock_movements (stored (fst (update_product db pid u))) =
           stock_movements (pending db)"
proof -
  let ?db1 = "flush_product P row db"
  have "set_required (pu_stock_quantity u) (stock_quantity P) = Some (stock_quantity row)"
    using assms(6) by (rule assign_product_stock)
  then have given: "stock_quantity row = v"
    by (simp add: assms(2))
  have found: "find (\<lambda>p. p_id p = pid) (products (pending db)) = Some P"
    using assms(1) by (simp add: get_product_def)
  then have "p_id P = pid"
    by (rule find_key)
  then have key: "p_id row = pid"
    using assign_product_key [OF assms(6)] by simp
  have "write_error (engine db) (pending ?db1) (WriteProduct (Some P) row) = None"
    using assms(8,9) by (simp add: write_error_def flush_product_def split: if_splits)
  then have "flush_error (engine ?db1) (pending ?db1) (dirty ?db1) = None"
    using assms(7) by (simp add: flush_product_def)
  from commit_accepted [OF this, of row]
  have run: "update_product db pid u =
      (?db1\<lparr>stored := pending ?db1, dirty := [], commits := commits ?db1 @ [pending ?db1]\<rparr>,
       Inr row)"
    using assms(1,3,4,5,6) by (simp add: update_product_def)
  have "find (\<lambda>p. p_id p = pid)
          (map (\<lambda>p. if p_id p = p_id row then row else p) (products (pending db))) = Some row"
    using found key by (rule find_flush)
  then have read: "get_product (fst (update_product db pid u)) pid = Some row"
    by (simp add: run get_product_def flush_product_def)
  have moves: "stock_movements (stored (fst (update_product db pid u))) =
                 stock_movements (pending db)"
    by (simp add: run flush_product_def)
  from given read moves show ?thesis
    by (simp add: run)
qed

text \<open>The laptop of the fixtures on PostgreSQL, overwritten with seven units.\<close>

theorem update_product_overwrites_stock_witness:
  "get_product production_session 1 = Some sample_product \<and>
   pu_stock_quantity stock_overwrite = Given (Some 7) \<and>
   sku_conflict production_session 1 (attr (pu_sku stock_overwrite)) = None \<and>
   missing_category production_session (attr (pu_category_id stock_overwrite)) = None \<and>
   missing_supplier production_session (attr (pu_supplier_id stock_overwrite)) = None \<and>
   assign_product stock_overwrite sample_product = Some (sample_product\<lparr>stock_quantity := 7\<rparr>) \<and>
   dirty production_session = [] \<and>
   data_fits (engine production_session)
     (WriteProduct (Some sample_product) (sample_product\<lparr>stock_quantity := 7\<rparr>)) \<and>
   refs_exist (engine production_session) (pending production_session)
     (WriteProduct (Some sample_product) (sample_product\<lparr>stock_quantity := 7\<rparr>)) \<and>
   snd (update_product production_session 1 stock_overwrite) =
     Inr (sample_product\<lparr>stock_quantity := 7\<rparr>) \<and>
   stock_quantity (sample_product\<lparr>stock_quantity := 7\<rparr>) = 7 \<and>
   get_product (fst (update_product production_session 1 stock_overwrite)) 1 =
     Some (sample_product\<lparr>stock_quantity := 7\<rparr>) \<and>
   stock_movements (stored (fst (update_product production_session 1 stock_overwrite))) = []"
proof -
  from overwrite_accepted
  have a: "get_product production_session 1 = Some sample_product"
    and b: "pu_stock_quantity stock_overwrite = Given (Some 7)"
    and c: "sku_conflict production_session 1 (attr (pu_sku stock_overwrite)) = None"
    and d: "missing_category production_session (attr (pu_category_id stock_overwrite)) = None"
    and e: "missing_supplier production_session (attr (pu_supplier_id stock_overwrite)) = None"
    and f: "assign_product stock_overwrite sample_product =
              Some (sample_product\<lparr>stock_quantity := 7\<rparr>)"
    and g: "dirty production_session = []"
    and h: "data_fits (engine production_session)
              (WriteProduct (Some sample_product) (sample_product\<lparr>stock_quantity := 7\<rparr>))"
    and i: "refs_exist (engine production_session) (pending production_session)
              (WriteProduct (Some sample_product) (sample_product\<lparr>stock_quantity := 7\<rparr>))"
    by simp_all
  have empty: "stock_movements (pending production_session) = []"
    by (simp add: production_session_def sample_session_def open_session_def)
  note outcome = update_product_overwrites_stock [OF a b c d e f g h i]
  from outcome
  have result: "snd (update_product production_session 1 stock_overwrite) =
          Inr (sample_product\<lparr>stock_quantity := 7\<rparr>)"
    and seven: "stock_quantity (sample_product\<lparr>stock_quantity := 7\<rparr>) = 7"
    and read: "get_product (fst (update_product production_session 1 stock_overwrite)) 1 =
          Some (sample_product\<lparr>stock_quantity := 7\<rparr>)"
    by blast+
  from outcome
  have "stock_movements (stored (fst (update_product production_session 1 stock_overwrite))) =
          stock_movements (pending production_session)"
    by blast
  then have ledger:
    "stock_movements (stored (fst (update_product production_session 1 stock_overwrite))) = []"
    by (simp only: empty)
  from a b c d e f g h i result seven read ledger show ?thesis
    by (intro conjI)
qed

text \<open>
  An update that gives a quantity is not always carried out. In the session that holds
  the laptop and the mouse, the body that gives the laptop seven units and the SKU of
  the mouse is refused with a 400 error, and the laptop keeps its ten units. On
  PostgreSQL, a body that passes the schema and every check of \<open>update_product\<close> is
  refused by the commit when its quantity is \<open>2^31\<close>, which does not fit the column, or
  when it names the category 0, which \<open>if product.category_id:\<close> lets through and which
  breaks the foreign key; the laptop keeps its ten units there as well.
\<close>

theorem update_product_rejected_counterexample:
  "get_product stocked_session 1 = Some sample_product \<and>
   stock_quantity sample_product = 10 \<and>
   pu_stock_quantity sku_clash = Given (Some 7) \<and>
   update_product stocked_session 1 sku_clash =
     (stocked_session,
      Inl (HTTPException 400
             (''Product with SKU '' @ quoted ''MOU-001'' @ '' already exists''))) \<and>
   get_product (fst (update_product stocked_session 1 sku_clash)) 1 = Some sample_product \<and>
   get_product production_session 1 = Some sample_product \<and>
   valid_ProductUpdate huge_overwrite \<and>
   pu_stock_quantity huge_overwrite = Given (Some 2147483648) \<and>
   update_product production_session 1 huge_overwrite = (production_session, Inl DataError) \<and>
   valid_ProductUpdate orphan_overwrite \<and>
   pu_stock_quantity orphan_overwrite = Given (Some 7) \<and>
   update_product production_session 1 orphan_overwrite =
     (production_session, Inl IntegrityError)"
proof -
  have laptop: "get_product stocked_session 1 = Some sample_product"
    by code_simp
  have ten: "stock_quantity sample_product = 10"
    by (simp add: sample_product_def)
  have given: "pu_stock_quantity sku_clash = Given (Some 7)"
    "pu_stock_quantity huge_overwrite = Given (Some 2147483648)"
    "pu_stock_quantity orphan_overwrite = Given (Some 7)"
    by (simp_all add: sku_clash_def orphan_overwrite_def huge_overwrite_def
        stock_overwrite_def no_update_def)
  have refused: "update_product stocked_session 1 sku_clash =
     (stocked_session,
      Inl (HTTPException 400
             (''Product with SKU '' @ quoted ''MOU-001'' @ '' already exists'')))"
    by code_simp
  then have kept: "get_product (fst (update_product stocked_session 1 sku_clash)) 1 =
      Some sample_product"
    by (simp add: laptop)
  have production: "get_product production_session 1 = Some sample_product"
    by code_simp
  have valid: "valid_ProductUpdate huge_overwrite" "valid_ProductUpdate orphan_overwrite"
    by (simp_all add: valid_ProductUpdate_def orphan_overwrite_def huge_overwrite_def
        stock_overwrite_def no_update_def)
  have huge: "update_product production_session 1 huge_overwrite =
      (production_session, Inl DataError)"
    by code_simp
  have orphan: "update_product production_session 1 orphan_overwrite =
      (production_session, Inl IntegrityError)"
    by code_simp
  from laptop ten given refused kept production valid huge orphan show ?thesis
    by (intro conjI)
qed


section \<open>No negative stock through the API\<close>

text \<open>
  Every operation keeps the invariant, given a body that passed its schema, whether its
  commit is accepted or refused.
\<close>

lemma nonneg_commit:
  "stock_nonneg (pending db) \<Longrightarrow> list_all stock_nonneg (commits db) \<Longrightarrow>
   commit db = Inr db' \<Longrightarrow> session_nonneg db'"
  by (auto simp: session_nonneg_def commit_def split: option.splits)

lemma nonneg_rollback:
  "stock_nonneg (stored db) \<Longrightarrow> list_all stock_nonneg (commits db) \<Longrightarrow>
   session_nonneg (rollback db)"
  by (simp add: session_nonneg_def rollback_def)

lemma nonneg_commit_and_return:
  "stock_nonneg (stored db) \<Longrightarrow> stock_nonneg (pending db) \<Longrightarrow>
   list_all stock_nonneg (commits db) \<Longrightarrow> session_nonneg (fst (commit_and_return db x))"
  by (cases "commit db") (simp_all add: commit_and_return_def nonneg_commit nonneg_rollback)

lemma nonneg_flush_product:
  "stock_nonneg (pending db) \<Longrightarrow> 0 \<le> stock_quantity row \<Longrightarrow>
   stock_nonneg (pending (flush_product old row db)) \<and>
   stored (flush_product old row db) = stored db \<and>
   commits (flush_product old row db) = commits db"
  by (auto simp: stock_nonneg_def flush_product_def list_all_iff)

lemma nonneg_add_product:
  "stock_nonneg (pending db) \<Longrightarrow> 0 \<le> stock_quantity row \<Longrightarrow>
   stock_nonneg (pending (add_product row db)) \<and>
   stored (add_product row db) = stored db \<and>
   commits (add_product row db) = commits db"
  by (simp add: stock_nonneg_def add_product_def)

lemma nonneg_add_stock_movement:
  "stock_nonneg (pending db) \<Longrightarrow>
   stock_nonneg (pending (add_stock_movement now pid q kind note db)) \<and>
   stored (add_stock_movement now pid q kind note db) = stored db \<and>
   commits (add_stock_movement now pid q kind note db) = commits db"
  by (simp add: stock_nonneg_def add_stock_movement_def Let_def)

lemma nonneg_get_product:
  "session_nonneg db \<Longrightarrow> get_product db pid = Some P \<Longrightarrow> 0 \<le> stock_quantity P"
  by (auto simp: session_nonneg_def stock_nonneg_def get_product_def list_all_iff
      dest: find_member)

lemma set_required_nonneg:
  "set_required f old = Some q \<Longrightarrow> field_ok (\<lambda>v. 0 \<le> v) f \<Longrightarrow> 0 \<le> old \<Longrightarrow> 0 \<le> (q::int)"
  by (cases "(f, old)" rule: set_required.cases) auto

lemma nonneg_create_category:
  assumes "session_nonneg db"
  shows "session_nonneg (fst (create_category db b))"
proof (cases "get_category_by_name db (cc_name b)")
  case None
  let ?row = "\<lparr>c_id = next_id (map c_id (categories (pending db))),
                c_name = cc_name b, c_description = cc_description b\<rparr>"
  have "session_nonneg (fst (commit_and_return (add_category ?row db) ?row))"
    using assms
    by (intro nonneg_commit_and_return)
      (simp_all add: session_nonneg_def add_category_def stock_nonneg_def)
  with None show ?thesis
    by (simp add: create_category_def Let_def)
next
  case (Some existing)
  with assms show ?thesis
    by (simp add: create_category_def)
qed

lemma nonneg_update_category:
  assumes "session_nonneg db"
  shows "session_nonneg (fst (update_category db cid b))"
proof -
  have "session_nonneg (fst (commit_and_return (flush_category old row db) row))" for old row
    using assms
    by (intro nonneg_commit_and_return)
      (simp_all add: session_nonneg_def flush_category_def stock_nonneg_def)
  moreover have "session_nonneg (rollback db)"
    using assms by (intro nonneg_rollback) (simp_all add: session_nonneg_def)
  ultimately show ?thesis
    using assms by (simp add: update_category_def Let_def split: option.splits)
qed

lemma nonneg_delete_category:
  assumes "session_nonneg db"
  shows "session_nonneg (fst (delete_category db cid))"
proof -
  have "session_nonneg (fst (commit_and_return (session_delete_category row db) ()))" for row
    using assms
    by (intro nonneg_commit_and_return)
      (auto simp: session_nonneg_def session_delete_category_def stock_nonneg_def
        list_all_iff Let_def)
  then show ?thesis
    using assms by (simp add: delete_category_def split: option.splits)
qed

lemma nonneg_create_supplier:
  assumes "session_nonneg db"
  shows "session_nonneg (fst (create_supplier db b))"
proof -
  have "session_nonneg (fst (commit_and_return (add_supplier row db) row))" for row
    using assms
    by (intro nonneg_commit_and_return)
      (simp_all add: session_nonneg_def add_supplier_def stock_nonneg_def)
  then show ?thesis
    using assms by (simp add: create_supplier_def Let_def split: option.splits)
qed

lemma nonneg_update_supplier:
  assumes "session_nonneg db"
  shows "session_nonneg (fst (update_supplier db sid b))"
proof -
  have "session_nonneg (fst (commit_and_return (flush_supplier old row db) row))" for old row
    using assms
    by (intro nonneg_commit_and_return)
      (simp_all add: session_nonneg_def flush_supplier_def stock_nonneg_def)
  moreover have "session_nonneg (rollback db)"
    using assms by (intro nonneg_rollback) (simp_all add: session_nonneg_def)
  ultimately show ?thesis
    using assms by (simp add: update_supplier_def Let_def split: option.splits)
qed

lemma nonneg_delete_supplier:
  assumes "session_nonneg db"
  shows "session_nonneg (fst (delete_supplier db sid))"
proof -
  have "session_nonneg (fst (commit_and_return (session_delete_supplier row db) ()))" for row
    using assms
    by (intro nonneg_commit_and_return)
      (auto simp: session_nonneg_def session_delete_supplier_def stock_nonneg_def
        list_all_iff Let_def)
  then show ?thesis
    using assms by (simp add: delete_supplier_def split: option.splits)
qed

lemma nonneg_delete_product:
  assumes "session_nonneg db"
  shows "session_nonneg (fst (delete_product db pid))"
proof -
  have "session_nonneg (fst (commit_and_return (session_delete_product row db) ()))" for row
    using assms
    by (intro nonneg_commit_and_return)
      (auto simp: session_nonneg_def session_delete_product_def stock_nonneg_def
        list_all_iff)
  then show ?thesis
    using assms by (simp add: delete_product_def split: option.splits)
qed

lemma nonneg_create_product:
  assumes "session_nonneg db" and "valid_ProductCreate b"
  shows "session_nonneg (fst (create_product db now b))"
proof -
  let ?row = "new_product db b"
  let ?db0 = "add_product ?row db"
  have pend: "stock_nonneg (pending db)" and kept: "stock_nonneg (stored db)"
    and log: "list_all stock_nonneg (commits db)"
    using assms(1) by (simp_all add: session_nonneg_def)
  have "0 \<le> stock_quantity ?row"
    using assms(2) by (simp add: valid_ProductCreate_def new_product_def)
  with pend have added: "stock_nonneg (pending ?db0)" "stored ?db0 = stored db"
    "commits ?db0 = commits db"
    using nonneg_add_product by simp_all
  have refused: "session_nonneg (rollback ?db0)"
    using kept log added(2,3) by (intro nonneg_rollback) simp_all
  have accepted: "session_nonneg db1" if "commit ?db0 = Inr db1" for db1
    using added(1) _ that by (rule nonneg_commit) (simp add: added(3) log)
  have booked: "session_nonneg (fst (commit_and_return
      (add_stock_movement now (p_id ?row) (pc_stock_quantity b) ''initial_stock''
         (Some ''Initial stock entry'') db1) ?row))"
    if "commit ?db0 = Inr db1" for db1
  proof -
    from that have "session_nonneg db1"
      by (rule accepted)
    then show ?thesis
      using nonneg_add_stock_movement [of db1]
      by (intro nonneg_commit_and_return) (simp_all add: session_nonneg_def)
  qed
  show ?thesis
    using assms(1) refused accepted booked
    by (simp add: create_product_def Let_def split: option.splits sum.splits)
qed

lemma nonneg_update_product:
  assumes "session_nonneg db" and "valid_ProductUpdate b"
  shows "session_nonneg (fst (update_product db pid b))"
proof (cases "get_product db pid")
  case None
  with assms(1) show ?thesis
    by (simp add: update_product_def)
next
  case (Some P)
  with assms(1) have old: "0 \<le> stock_quantity P"
    by (rule nonneg_get_product)
  have ok: "field_ok (\<lambda>v. 0 \<le> v) (pu_stock_quantity b)"
    using assms(2) by (simp add: valid_ProductUpdate_def)
  have pend: "stock_nonneg (pending db)" and kept: "stock_nonneg (stored db)"
    and log: "list_all stock_nonneg (commits db)"
    using assms(1) by (simp_all add: session_nonneg_def)
  have undone: "session_nonneg (rollback db)"
    using kept log by (rule nonneg_rollback)
  show ?thesis
  proof (cases "assign_product b P")
    case None
    with Some assms(1) undone show ?thesis
      by (simp add: update_product_def split: option.splits)
  next
    case (Some row)
    then have "0 \<le> stock_quantity row"
      using set_required_nonneg [OF assign_product_stock ok old] by simp
    with pend have "stock_nonneg (pending (flush_product P row db))"
      and "stored (flush_product P row db) = stored db"
      and "commits (flush_product P row db) = commits db"
      using nonneg_flush_product by simp_all
    with kept log
    have "session_nonneg (fst (commit_and_return (flush_product P row db) row))"
      by (intro nonneg_commit_and_return) simp_all
    with Some \<open>get_product db pid = Some P\<close> assms(1) show ?thesis
      by (simp add: update_product_def split: option.splits)
  qed
qed

lemma nonneg_adjust_product_stock:
  assumes "session_nonneg db"
  shows "session_nonneg (fst (adjust_product_stock db now pid a))"
proof (cases "get_product db pid")
  case None
  with assms show ?thesis
    by (simp add: adjust_product_stock_def)
next
  case (Some P)
  have pend: "stock_nonneg (pending db)" and kept: "stock_nonneg (stored db)"
    and log: "list_all stock_nonneg (commits db)"
    using assms by (simp_all add: session_nonneg_def)
  show ?thesis
  proof (cases "stock_quantity P + adj_quantity a < 0")
    case True
    with Some assms show ?thesis
      by (simp add: adjust_product_stock_def)
  next
    case False
    let ?row = "P\<lparr>stock_quantity := stock_quantity P + adj_quantity a\<rparr>"
    let ?kind = "if adj_quantity a > 0 then ''stock_in'' else ''stock_out''"
    let ?db1 = "flush_product P ?row db"
    let ?db2 = "add_stock_movement now pid (adj_quantity a) ?kind (adj_notes a) ?db1"
    from False have "0 \<le> stock_quantity ?row"
      by simp
    with pend have "stock_nonneg (pending ?db1)" and "stored ?db1 = stored db"
      and "commits ?db1 = commits db"
      using nonneg_flush_product by simp_all
    then have "stock_nonneg (pending ?db2)" and "stored ?db2 = stored db"
      and "commits ?db2 = commits db"
      using nonneg_add_stock_movement [of ?db1] by simp_all
    with kept log have "session_nonneg (fst (commit_and_return ?db2 ?row))"
      by (intro nonneg_commit_and_return) simp_all
    with Some False show ?thesis
      by (simp add: adjust_product_stock_def Let_def)
  qed
qed

lemma nonneg_handle:
  "session_nonneg db \<Longrightarrow> session_nonneg (fst (handle db now r))"
  by (cases r)
    (simp_all add: reply_def nonneg_create_category nonneg_update_category
      nonneg_delete_category nonneg_create_supplier nonneg_update_supplier
      nonneg_delete_supplier nonneg_create_product nonneg_update_product
      nonneg_delete_product nonneg_adjust_product_stock)

lemma nonneg_serve:
  "session_nonneg db \<Longrightarrow> session_nonneg (serve db rs)"
proof (induction rs arbitrary: db)
  case Nil
  then show ?case by simp
next
  case (Cons x rs)
  obtain now r where "x = (now, r)"
    by (cases x)
  with Cons show ?case
    by (simp add: nonneg_handle)
qed

lemma nonneg_empty: "session_nonneg (open_session be empty_database)"
  by (simp add: session_nonneg_def open_session_def empty_database_def stock_nonneg_def)

text \<open>
  Claim C10. A product creation and a product update whose \<open>stock_quantity\<close> is
  negative are refused at validation; an adjustment that would make the quantity
  negative is refused and leaves the session as it was; every sequence of writing
  requests keeps all quantities at least zero, in the stored data, the pending data and
  every committed state; started on the empty database, on either backend, it never
  stores a product with a negative quantity.
\<close>

theorem stock_never_negative:
  "(pc_stock_quantity b < 0 \<longrightarrow>
      handle db now (POST_product b) = (db, Inl RequestValidationError)) \<and>
   (pu_stock_quantity u = Given (Some v) \<and> v < 0 \<longrightarrow>
      handle db now (PUT_product pid u) = (db, Inl RequestValidationError)) \<and>
   (get_product db pid = Some P \<and> stock_quantity P + adj_quantity a < 0 \<longrightarrow>
      fst (handle db now (POST_adjust_stock pid a)) = db \<and>
      isl (snd (handle db now (POST_adjust_stock pid a)))) \<and>
   (session_nonneg db \<longrightarrow> session_nonneg (serve db rs)) \<and>
   list_all (\<lambda>p. 0 \<le> stock_quantity p)
     (products (stored (serve (open_session be empty_database) rs)))"
proof -
  have create: "pc_stock_quantity b < 0 \<longrightarrow>
      handle db now (POST_product b) = (db, Inl RequestValidationError)"
    by (simp add: valid_ProductCreate_def)
  have update: "pu_stock_quantity u = Given (Some v) \<and> v < 0 \<longrightarrow>
      handle db now (PUT_product pid u) = (db, Inl RequestValidationError)"
    by (simp add: valid_ProductUpdate_def)
  have adjust: "get_product db pid = Some P \<and> stock_quantity P + adj_quantity a < 0 \<longrightarrow>
      fst (handle db now (POST_adjust_stock pid a)) = db \<and>
      isl (snd (handle db now (POST_adjust_stock pid a)))"
    by (simp add: reply_def adjust_product_stock_def)
  have "session_nonneg (serve (open_session be empty_database) rs)"
    using nonneg_empty by (rule nonneg_serve)
  then have fresh: "list_all (\<lambda>p. 0 \<le> stock_quantity p)
     (products (stored (serve (open_session be empty_database) rs)))"
    by (simp add: session_nonneg_def stock_nonneg_def)
  from create update adjust nonneg_serve fresh show ?thesis
    by blast
qed

theorem stock_never_negative_witness:
  "pc_stock_quantity negative_mouse < 0 \<and>
   handle sample_session 100 (POST_product negative_mouse) =
     (sample_session, Inl RequestValidationError) \<and>
   pu_stock_quantity negative_overwrite = Given (Some (- 1)) \<and>
   handle sample_session 100 (PUT_product 1 negative_overwrite) =
     (sample_session, Inl RequestValidationError) \<and>
   get_product sample_session 1 = Some sample_product \<and>
   stock_quantity sample_product + adj_quantity oversell < 0 \<and>
   fst (handle sample_session 100 (POST_adjust_stock 1 oversell)) = sample_session \<and>
   session_nonneg sample_session \<and>
   session_nonneg (serve sample_session sample_requests) \<and>
   map stock_quantity (products (stored (serve sample_session sample_requests))) = [7, 50]"
proof -
  have negative: "pc_stock_quantity negative_mouse < 0"
    by (simp add: negative_mouse_def)
  have given: "pu_stock_quantity negative_overwrite = Given (Some (- 1))"
    by (simp add: negative_overwrite_def)
  have short: "stock_quantity sample_product + adj_quantity oversell < 0"
    by (simp add: sample_product_def oversell_def)
  have start: "session_nonneg sample_session"
    by (simp add: session_nonneg_def stock_nonneg_def sample_session_def open_session_def
        sample_product_def)
  have final: "map stock_quantity (products (stored (serve sample_session sample_requests))) =
      [7, 50]"
    by code_simp
  show ?thesis
    using stock_never_negative [where b = negative_mouse and db = sample_session
        and now = 100 and u = negative_overwrite and v = "- 1" and pid = 1
        and P = sample_product and a = oversell and rs = sample_requests]
      negative given short start final sample_lookup
    by simp
qed

end
